theory Spec2Isabelle
  imports Main
begin

section \<open>The URL shortener: data model\<close>

text \<open>
  A shallow embedding of the backend of the URL shortener: the PostgreSQL table
  \<^verbatim>\<open>urls\<close> (config/database.js), the database service (services/dbService.js), the
  Redis service (services/redisService.js), the short-code validator
  (services/shortCodeGenerator.js) and the five request handlers of the controller
  (controllers/urlController.js). Three service methods that no handler calls are left
  out: \<^verbatim>\<open>getClickCount\<close> and \<^verbatim>\<open>getMetadata\<close> of the Redis service and
  \<^verbatim>\<open>cleanupExpiredUrls\<close> of the database service.

  Conventions of the model.
  \<^item> Time is an integer number of milliseconds, as \<^verbatim>\<open>Date.now()\<close> returns it. A handler
    reads the clock once: the parameter \<open>now\<close> stands for \<^verbatim>\<open>Date.now()\<close>, \<^verbatim>\<open>new Date()\<close>,
    PostgreSQL's \<^verbatim>\<open>CURRENT_TIMESTAMP\<close> and the clock of the Redis server during that call.
  \<^item> A string is a list of characters; \<open>length\<close> stands for JavaScript's \<^verbatim>\<open>.length\<close> and
    for the character count of a \<^verbatim>\<open>VARCHAR(n)\<close> column.
  \<^item> A rejected promise or a thrown exception is the \<open>Inl\<close> branch of a sum; the
    state after the call is returned beside it.
  \<^item> The network can fail under any single command. Both clients carry a schedule of
    booleans, one consumed by each command sent: \<open>True\<close> makes that command fail
    without effect (its promise is rejected), the empty schedule means that no command
    fails any more. A Redis command that never settles, because the server cannot be
    reached, is the subject of the handlers with the parameter \<open>ready\<close>, further down.
  \<^item> The two click increments of \<^verbatim>\<open>redirectUrl\<close> are started and not awaited; the model
    runs them to completion inside the handler, and drops their results as the source's
    \<^verbatim>\<open>.catch\<close> does.
\<close>

type_synonym time = int

datatype error =
    PgError string      \<comment> \<open>an error of the pg driver, with its SQLSTATE code\<close>
  | ReplyError string   \<comment> \<open>an error reply of the Redis client\<close>
  | Error string        \<comment> \<open>a JavaScript \<^verbatim>\<open>Error\<close> with its message\<close>

definition take_fault :: "bool list \<Rightarrow> bool \<times> bool list" where
  "take_fault fs = (case fs of [] \<Rightarrow> (False, []) | f # fs' \<Rightarrow> (f, fs'))"

subsection \<open>The table \<^verbatim>\<open>urls\<close>\<close>

text \<open>
  \<^verbatim>\<open>id SERIAL PRIMARY KEY, short_code VARCHAR(10) UNIQUE NOT NULL, long_url TEXT NOT NULL,
  clicks INTEGER DEFAULT 0, created_at TIMESTAMP DEFAULT CURRENT_TIMESTAMP,
  expires_at TIMESTAMP, user_ip VARCHAR(45), metadata JSONB\<close>.
  No statement of the service writes the column \<^verbatim>\<open>metadata\<close>; it is left out.
\<close>

record url_row =
  row_id :: nat
  short_code :: string
  long_url :: string
  clicks :: int
  created_at :: time
  expires_at :: "time option"
  user_ip :: "string option"

record database =
  urls :: "url_row list"
  urls_id_seq :: nat          \<comment> \<open>the next value of the sequence behind \<^verbatim>\<open>id SERIAL\<close>\<close>
  db_faults :: "bool list"

definition pool_query ::
  "(database \<Rightarrow> (error + 'a) \<times> database) \<Rightarrow> database \<Rightarrow> (error + 'a) \<times> database" where
  "pool_query stmt db =
     (let (f, fs) = take_fault (db_faults db) in
      if f then (Inl (PgError ''08006''), db\<lparr>db_faults := fs\<rparr>)
      else stmt (db\<lparr>db_faults := fs\<rparr>))"

definition where_short_code :: "string \<Rightarrow> database \<Rightarrow> url_row list" where
  "where_short_code code db = filter (\<lambda>r. short_code r = code) (urls db)"

definition first_row :: "'a list \<Rightarrow> 'a option" where
  "first_row rs = (case rs of [] \<Rightarrow> None | r # _ \<Rightarrow> Some r)"

text \<open>
  The timestamp parameter of the insertion. A JavaScript \<^verbatim>\<open>Date\<close> holds an instant of at
  most 8 640 000 000 000 000 ms either side of the epoch; \<^verbatim>\<open>new Date(t)\<close> with \<open>t\<close> outside
  this range is an Invalid Date, which the driver sends as a text that the server refuses
  (SQLSTATE 22007). An instant outside the range stands for this Invalid Date. A valid
  date before the first instant of a PostgreSQL \<^verbatim>\<open>TIMESTAMP\<close> (Julian day 0, that is
  210 866 803 200 000 ms before the epoch) is out of range for the column (22008).
\<close>

definition timestamp_error :: "time option \<Rightarrow> string option" where
  "timestamp_error ex =
     (case ex of
        None \<Rightarrow> None
      | Some t \<Rightarrow>
          if t < - 8640000000000000 \<or> 8640000000000000 < t then Some ''22007''
          else if t < - 210866803200000 then Some ''22008''
          else None)"

text \<open>\<^verbatim>\<open>INSERT INTO urls (short_code, long_url, user_ip, expires_at) VALUES ($1, $2, $3, $4)
  RETURNING *\<close>. A timestamp that the server cannot read fails the statement first. A
  value too long for its column is SQLSTATE 22001; a second row with the same
  \<^verbatim>\<open>short_code\<close> is the unique violation 23505, raised after the sequence has advanced.\<close>

definition sql_insert ::
  "time \<Rightarrow> string \<Rightarrow> string \<Rightarrow> string option \<Rightarrow> time option \<Rightarrow> database
     \<Rightarrow> (error + url_row) \<times> database" where
  "sql_insert now code url ip ex db =
     (case timestamp_error ex of
        Some sqlstate \<Rightarrow> (Inl (PgError sqlstate), db)
      | None \<Rightarrow>
          if 10 < length code \<or> (case ip of None \<Rightarrow> False | Some a \<Rightarrow> 45 < length a)
          then (Inl (PgError ''22001''), db)
          else
            let db1 = db\<lparr>urls_id_seq := urls_id_seq db + 1\<rparr> in
            if where_short_code code db \<noteq> [] then (Inl (PgError ''23505''), db1)
            else
              let row = \<lparr>row_id = urls_id_seq db, short_code = code, long_url = url,
                         clicks = 0, created_at = now, expires_at = ex, user_ip = ip\<rparr>
              in (Inr row, db1\<lparr>urls := urls db @ [row]\<rparr>))"

text \<open>\<^verbatim>\<open>SELECT * FROM urls WHERE short_code = $1\<close>\<close>

definition sql_select :: "string \<Rightarrow> database \<Rightarrow> (error + url_row list) \<times> database" where
  "sql_select code db = (Inr (where_short_code code db), db)"

text \<open>\<^verbatim>\<open>SELECT * FROM urls ORDER BY created_at DESC LIMIT $1 OFFSET $2\<close>; a negative limit
  or offset is an error of the statement. Rows created at the same instant keep their
  insertion order here (SQL leaves their order open).\<close>

definition sql_select_page ::
  "int \<Rightarrow> int \<Rightarrow> database \<Rightarrow> (error + url_row list) \<times> database" where
  "sql_select_page lim off db =
     (if lim < 0 then (Inl (PgError ''2201W''), db)
      else if off < 0 then (Inl (PgError ''2201X''), db)
      else (Inr (take (nat lim) (drop (nat off) (sort_key (\<lambda>r. - created_at r) (urls db)))), db))"

text \<open>\<^verbatim>\<open>UPDATE urls SET clicks = clicks + 1 WHERE short_code = $1 RETURNING clicks\<close>. The
  column is a 32-bit \<^verbatim>\<open>INTEGER\<close>: past its largest value the statement fails (22003)
  and changes nothing.\<close>

definition sql_increment :: "string \<Rightarrow> database \<Rightarrow> (error + int list) \<times> database" where
  "sql_increment code db =
     (if list_ex (\<lambda>r. 2147483647 \<le> clicks r) (where_short_code code db)
      then (Inl (PgError ''22003''), db)
      else (Inr (map (\<lambda>r. clicks r + 1) (where_short_code code db)),
            db\<lparr>urls := map (\<lambda>r. if short_code r = code then r\<lparr>clicks := clicks r + 1\<rparr> else r)
                           (urls db)\<rparr>))"

text \<open>\<^verbatim>\<open>DELETE FROM urls WHERE short_code = $1 RETURNING *\<close>\<close>

definition sql_delete :: "string \<Rightarrow> database \<Rightarrow> (error + url_row list) \<times> database" where
  "sql_delete code db =
     (Inr (where_short_code code db),
      db\<lparr>urls := filter (\<lambda>r. short_code r \<noteq> code) (urls db)\<rparr>)"

text \<open>\<^verbatim>\<open>SELECT COUNT(*) AS total FROM urls\<close>\<close>

definition sql_count :: "database \<Rightarrow> (error + nat) \<times> database" where
  "sql_count db = (Inr (length (urls db)), db)"

subsection \<open>services/dbService.js\<close>

definition dbService_createUrl ::
  "time \<Rightarrow> string \<Rightarrow> string \<Rightarrow> string option \<Rightarrow> time option \<Rightarrow> database
     \<Rightarrow> (error + url_row) \<times> database" where
  "dbService_createUrl now shortCode longUrl userIp expiresAt db =
     (case pool_query (sql_insert now shortCode longUrl userIp expiresAt) db of
        (Inl e, db') \<Rightarrow>
          (if e = PgError ''23505'' then Inl (Error ''Short code already exists'') else Inl e,
           db')
      | (Inr row, db') \<Rightarrow> (Inr row, db'))"

definition dbService_getUrlbyShortCode ::
  "string \<Rightarrow> database \<Rightarrow> (error + url_row option) \<times> database" where
  "dbService_getUrlbyShortCode shortCode db =
     (case pool_query (sql_select shortCode) db of
        (Inl e, db') \<Rightarrow> (Inl e, db')
      | (Inr rs, db') \<Rightarrow> (Inr (first_row rs), db'))"

definition dbService_getAllUrls ::
  "int \<Rightarrow> int \<Rightarrow> database \<Rightarrow> (error + url_row list) \<times> database" where
  "dbService_getAllUrls limit offset db = pool_query (sql_select_page limit offset) db"

definition dbService_incrementClicks :: "string \<Rightarrow> database \<Rightarrow> (error + int) \<times> database" where
  "dbService_incrementClicks shortCode db =
     (case pool_query (sql_increment shortCode) db of
        (Inl e, db') \<Rightarrow> (Inl e, db')
      | (Inr cs, db') \<Rightarrow> (Inr (case first_row cs of None \<Rightarrow> 0 | Some c \<Rightarrow> c), db'))"

definition dbService_deleteUrl ::
  "string \<Rightarrow> database \<Rightarrow> (error + url_row option) \<times> database" where
  "dbService_deleteUrl shortCode db =
     (case pool_query (sql_delete shortCode) db of
        (Inl e, db') \<Rightarrow> (Inl e, db')
      | (Inr rs, db') \<Rightarrow> (Inr (first_row rs), db'))"

text \<open>The row of \<^verbatim>\<open>getAnalytics\<close> has the five selected columns
  \<^verbatim>\<open>short_code, long_url, clicks, created_at, expires_at\<close>.\<close>

type_synonym analytics_row = "string \<times> string \<times> int \<times> time \<times> time option"

definition dbService_getAnalytics ::
  "string \<Rightarrow> database \<Rightarrow> (error + analytics_row option) \<times> database" where
  "dbService_getAnalytics shortCode db =
     (case pool_query (sql_select shortCode) db of
        (Inl e, db') \<Rightarrow> (Inl e, db')
      | (Inr rs, db') \<Rightarrow>
          (Inr (first_row (map (\<lambda>r. (short_code r, long_url r, clicks r, created_at r,
                                       expires_at r)) rs)), db'))"

definition dbService_getTotalUrlCount :: "database \<Rightarrow> (error + nat) \<times> database" where
  "dbService_getTotalUrlCount db = pool_query sql_count db"

subsection \<open>The Redis server\<close>

text \<open>
  A key holds a string and, when it was set with a time to live, the instant at which
  it expires. An expired key stays in the map and is read as absent. The commands are
  the four the service sends: \<^verbatim>\<open>GET\<close>, \<^verbatim>\<open>SETEX\<close>, \<^verbatim>\<open>DEL\<close> and \<^verbatim>\<open>INCR\<close>.
\<close>

record redis =
  kv :: "string \<rightharpoonup> string \<times> time option"
  redis_faults :: "bool list"

definition sendCommand ::
  "(redis \<Rightarrow> (error + 'a) \<times> redis) \<Rightarrow> redis \<Rightarrow> (error + 'a) \<times> redis" where
  "sendCommand cmd rc =
     (let (f, fs) = take_fault (redis_faults rc) in
      if f then (Inl (ReplyError ''The client is closed''), rc\<lparr>redis_faults := fs\<rparr>)
      else cmd (rc\<lparr>redis_faults := fs\<rparr>))"

definition live :: "time \<Rightarrow> string \<times> time option \<Rightarrow> bool" where
  "live now e = (case snd e of None \<Rightarrow> True | Some t \<Rightarrow> now < t)"

definition lookup :: "time \<Rightarrow> string \<Rightarrow> redis \<Rightarrow> (string \<times> time option) option" where
  "lookup now key rc =
     (case kv rc key of None \<Rightarrow> None | Some e \<Rightarrow> if live now e then Some e else None)"

definition GET :: "time \<Rightarrow> string \<Rightarrow> redis \<Rightarrow> (error + string option) \<times> redis" where
  "GET now key rc = (Inr (map_option fst (lookup now key rc)), rc)"

definition SETEX :: "time \<Rightarrow> string \<Rightarrow> int \<Rightarrow> string \<Rightarrow> redis \<Rightarrow> (error + unit) \<times> redis" where
  "SETEX now key seconds v rc =
     (if seconds \<le> 0 then (Inl (ReplyError ''ERR invalid expire time''), rc)
      else (Inr (), rc\<lparr>kv := (kv rc)(key \<mapsto> (v, Some (now + seconds * 1000)))\<rparr>))"

definition DEL :: "string \<Rightarrow> redis \<Rightarrow> (error + unit) \<times> redis" where
  "DEL key rc = (Inr (), rc\<lparr>kv := (kv rc)(key := None)\<rparr>)"

text \<open>\<^verbatim>\<open>INCR\<close> reads the value as a decimal 64-bit integer in canonical form, adds one and
  keeps the key's time to live; an absent key counts from zero and gets none.\<close>

fun digits :: "nat \<Rightarrow> string" where
  "digits n = (if n < 10 then [char_of (48 + n)]
               else digits (n div 10) @ [char_of (48 + n mod 10)])"

declare digits.simps [simp del]

definition show_int :: "int \<Rightarrow> string" where
  "show_int i = (if i < 0 then CHR ''-'' # digits (nat (- i)) else digits (nat i))"

definition digit_of :: "char \<Rightarrow> nat option" where
  "digit_of c = (let n = (of_char c :: nat) in if 48 \<le> n \<and> n \<le> 57 then Some (n - 48) else None)"

fun read_nat :: "nat \<Rightarrow> string \<Rightarrow> nat option" where
  "read_nat acc [] = Some acc"
| "read_nat acc (c # cs) =
     (case digit_of c of None \<Rightarrow> None | Some d \<Rightarrow> read_nat (10 * acc + d) cs)"

definition read_int :: "string \<Rightarrow> int option" where
  "read_int s =
     (case (case s of
              [] \<Rightarrow> None
            | c # cs \<Rightarrow>
                if c = CHR ''-''
                then (if cs = [] then None else map_option (\<lambda>n. - int n) (read_nat 0 cs))
                else map_option int (read_nat 0 s)) of
        None \<Rightarrow> None
      | Some i \<Rightarrow>
          if show_int i = s \<and> - (2 ^ 63) \<le> i \<and> i < 2 ^ 63 then Some i else None)"

definition INCR :: "time \<Rightarrow> string \<Rightarrow> redis \<Rightarrow> (error + int) \<times> redis" where
  "INCR now key rc =
     (case lookup now key rc of
        None \<Rightarrow> (Inr 1, rc\<lparr>kv := (kv rc)(key \<mapsto> (''1'', None))\<rparr>)
      | Some (v, ttl) \<Rightarrow>
          (case read_int v of
             None \<Rightarrow> (Inl (ReplyError ''ERR value is not an integer or out of range''), rc)
           | Some i \<Rightarrow>
               if i = 2 ^ 63 - 1
               then (Inl (ReplyError ''ERR increment or decrement would overflow''), rc)
               else (Inr (i + 1), rc\<lparr>kv := (kv rc)(key \<mapsto> (show_int (i + 1), ttl))\<rparr>)))"

subsection \<open>The environment of the process\<close>

text \<open>
  \<open>isURL\<close> is the predicate \<^verbatim>\<open>validator.isURL\<close> of the library the controller imports,
  \<open>JSON_stringify\<close> the serialisation of the metadata object
  \<^verbatim>\<open>{id, createdAt, expiresAt}\<close>; \<open>BASE_URL\<close> and \<open>REDIS_TTL\<close> are the environment
  variables, the latter after \<^verbatim>\<open>parseInt\<close> (\<open>None\<close> when it is unset or not a number).
\<close>

record env =
  isURL :: "string \<Rightarrow> bool"
  JSON_stringify :: "nat \<times> time \<times> time option \<Rightarrow> string"
  BASE_URL :: string
  REDIS_TTL :: "int option"

text \<open>\<^verbatim>\<open>const CACHE_TTL = parseInt(process.env.REDIS_TTL) || 86400\<close>\<close>

definition CACHE_TTL :: "env \<Rightarrow> int" where
  "CACHE_TTL e = (case REDIS_TTL e of None \<Rightarrow> 86400 | Some n \<Rightarrow> if n = 0 then 86400 else n)"

subsection \<open>services/redisService.js\<close>

text \<open>Every method catches the client's error and returns \<^verbatim>\<open>false\<close> or \<^verbatim>\<open>null\<close>.\<close>

definition redisService_cacheUrl ::
  "env \<Rightarrow> time \<Rightarrow> string \<Rightarrow> string \<Rightarrow> redis \<Rightarrow> bool \<times> redis" where
  "redisService_cacheUrl e now shortCode longUrl rc =
     (case sendCommand (SETEX now (''url:'' @ shortCode) (CACHE_TTL e) longUrl) rc of
        (Inl err, rc') \<Rightarrow> (False, rc')
      | (Inr _, rc') \<Rightarrow> (True, rc'))"

definition redisService_getUrl :: "time \<Rightarrow> string \<Rightarrow> redis \<Rightarrow> string option \<times> redis" where
  "redisService_getUrl now shortCode rc =
     (case sendCommand (GET now (''url:'' @ shortCode)) rc of
        (Inl err, rc') \<Rightarrow> (None, rc')
      | (Inr v, rc') \<Rightarrow> (v, rc'))"

definition redisService_incrementClicks :: "time \<Rightarrow> string \<Rightarrow> redis \<Rightarrow> bool \<times> redis" where
  "redisService_incrementClicks now shortCode rc =
     (case sendCommand (INCR now (''clicks:'' @ shortCode)) rc of
        (Inl err, rc') \<Rightarrow> (False, rc')
      | (Inr _, rc') \<Rightarrow> (True, rc'))"

definition redisService_deleteUrl :: "string \<Rightarrow> redis \<Rightarrow> bool \<times> redis" where
  "redisService_deleteUrl shortCode rc =
     (case sendCommand (DEL (''url:'' @ shortCode)) rc of
        (Inl err, rc1) \<Rightarrow> (False, rc1)
      | (Inr _, rc1) \<Rightarrow>
          (case sendCommand (DEL (''clicks:'' @ shortCode)) rc1 of
             (Inl err, rc2) \<Rightarrow> (False, rc2)
           | (Inr _, rc2) \<Rightarrow> (True, rc2)))"

definition redisService_cacheMetadata ::
  "env \<Rightarrow> time \<Rightarrow> string \<Rightarrow> nat \<times> time \<times> time option \<Rightarrow> redis \<Rightarrow> bool \<times> redis" where
  "redisService_cacheMetadata e now shortCode metadata rc =
     (case sendCommand (SETEX now (''meta:'' @ shortCode) (CACHE_TTL e) (JSON_stringify e metadata))
             rc of
        (Inl err, rc') \<Rightarrow> (False, rc')
      | (Inr _, rc') \<Rightarrow> (True, rc'))"

subsection \<open>services/shortCodeGenerator.js\<close>

definition alphabet :: string where
  "alphabet = ''0123456789abcdefghijklmnopqrstuvwxyzABCDEFGHIJKLMNOPQRSTUVWXYZ''"

text \<open>The regular expression \<^verbatim>\<open>^[alphabet]{6,10}$\<close>. No handler calls this function.\<close>

definition isValidShortCode :: "string \<Rightarrow> bool" where
  "isValidShortCode code =
     (6 \<le> length code \<and> length code \<le> 10 \<and> list_all (\<lambda>c. c \<in> set alphabet) code)"

text \<open>\<^verbatim>\<open>generateShortCode\<close> draws from a random source: the handler below takes the string
  that the call returns as its parameter \<open>nanoid\<close>.\<close>

subsection \<open>controllers/urlController.js\<close>

text \<open>One entry of the JSON the handlers send for a mapping: \<^verbatim>\<open>id, shortCode, shortUrl,
  longUrl, clicks, createdAt, expiresAt\<close>, in this order.\<close>

datatype url_json = UrlJson nat string string string int time "time option"

datatype body =
    Failure string                                   \<comment> \<open>\<^verbatim>\<open>{success: false, error}\<close>\<close>
  | Created url_json                                 \<comment> \<open>\<^verbatim>\<open>{success: true, data}\<close>\<close>
  | Listing "url_json list" nat int int              \<comment> \<open>\<^verbatim>\<open>urls, total, limit, offset\<close>\<close>
  | Analytics string string int time "time option"   \<comment> \<open>\<^verbatim>\<open>shortCode, longUrl, clicks, createdAt, expiresAt\<close>\<close>
  | Message string                                   \<comment> \<open>\<^verbatim>\<open>{success: true, message}\<close>\<close>

datatype response =
    Json nat body     \<comment> \<open>\<^verbatim>\<open>res.status(n).json(body)\<close>; \<^verbatim>\<open>res.json\<close> alone sends 200\<close>
  | Redirect string   \<comment> \<open>\<^verbatim>\<open>res.redirect(url)\<close>\<close>

text \<open>The body of the request and the two places the handler reads the client's address
  from. A field that is absent is \<open>None\<close>.\<close>

record create_request =
  longUrl :: "string option"
  customCode :: "string option"
  expiresIn :: "int option"
  req_ip :: "string option"
  remoteAddress :: "string option"

text \<open>JavaScript reads an absent and an empty string as false.\<close>

definition truthy :: "string option \<Rightarrow> string option" where
  "truthy v = (case v of None \<Rightarrow> None | Some s \<Rightarrow> if s = [] then None else Some s)"

type_synonym state = "database \<times> redis"

text \<open>\<^verbatim>\<open>let expiresAt = null; if (expiresIn) expiresAt = new Date(Date.now() + expiresIn * 1000)\<close>.
  The sum is kept as it is; where it leaves the range of a \<^verbatim>\<open>Date\<close>, the insertion fails
  (see \<open>timestamp_error\<close>).\<close>

definition requested_expiry :: "time \<Rightarrow> create_request \<Rightarrow> time option" where
  "requested_expiry now req =
     (case expiresIn req of
        None \<Rightarrow> None
      | Some n \<Rightarrow> if n = 0 then None else Some (now + n * 1000))"

text \<open>\<^verbatim>\<open>const userIp = req.ip || req.connection.remoteAddress\<close>\<close>

definition requested_ip :: "create_request \<Rightarrow> string option" where
  "requested_ip req =
     (case truthy (req_ip req) of Some a \<Rightarrow> Some a | None \<Rightarrow> remoteAddress req)"

text \<open>Lines 38 to 76 of \<^verbatim>\<open>createShortUrl\<close>: the expiry, the insertion, the two cache
  entries and the response. The 400 response for an invalid URL spells its flag
  \<^verbatim>\<open>sucess\<close>; the body type does not keep the flag.\<close>

definition createShortUrl_store ::
  "env \<Rightarrow> time \<Rightarrow> string \<Rightarrow> string \<Rightarrow> create_request \<Rightarrow> state \<Rightarrow> response \<times> state" where
  "createShortUrl_store e now shortCode url req s =
     (case s of (db, rc) \<Rightarrow>
        (let expiresAt = requested_expiry now req;
             userIp = requested_ip req
         in (case dbService_createUrl now shortCode url userIp expiresAt db of
             (Inl err, db1) \<Rightarrow> (Json 500 (Failure ''Failed to create short URL''), (db1, rc))
           | (Inr urlRecord, db1) \<Rightarrow>
               let rc1 = snd (redisService_cacheUrl e now shortCode url rc);
                   rc2 = snd (redisService_cacheMetadata e now shortCode
                                (row_id urlRecord, created_at urlRecord, expires_at urlRecord) rc1)
               in (Json 201 (Created (UrlJson (row_id urlRecord) shortCode
                                        (BASE_URL e @ ''/'' @ shortCode) url 0
                                        (created_at urlRecord) (expires_at urlRecord))),
                   (db1, rc2)))))"

definition createShortUrl ::
  "env \<Rightarrow> time \<Rightarrow> string \<Rightarrow> create_request \<Rightarrow> state \<Rightarrow> response \<times> state" where
  "createShortUrl e now nanoid req s =
     (case s of (db, rc) \<Rightarrow>
        (case truthy (longUrl req) of
           None \<Rightarrow> (Json 400 (Failure ''Invalid URL provided''), s)
         | Some url \<Rightarrow>
             if \<not> isURL e url then (Json 400 (Failure ''Invalid URL provided''), s)
             else
               (case truthy (customCode req) of
                  None \<Rightarrow> createShortUrl_store e now nanoid url req s
                | Some code \<Rightarrow>
                    if 10 < length code \<or> length code < 4
                    then (Json 400 (Failure ''Custom code must be between 4 and 10 characters''), s)
                    else
                      (case dbService_getUrlbyShortCode code db of
                         (Inl err, db1) \<Rightarrow>
                           (Json 500 (Failure ''Failed to create short URL''), (db1, rc))
                       | (Inr (Some existing), db1) \<Rightarrow>
                           (Json 409 (Failure ''Custom code already in use''), (db1, rc))
                       | (Inr None, db1) \<Rightarrow>
                           createShortUrl_store e now code url req (db1, rc)))))"

text \<open>The click recording of \<^verbatim>\<open>redirectUrl\<close>:
  \<^verbatim>\<open>Promise.all([redisService.incrementClicks(c), dbService.incrementClicks(c)]).catch(...)\<close>.\<close>

definition recordClicks :: "time \<Rightarrow> string \<Rightarrow> state \<Rightarrow> state" where
  "recordClicks now shortCode s =
     (case s of (db, rc) \<Rightarrow>
        (snd (dbService_incrementClicks shortCode db),
         snd (redisService_incrementClicks now shortCode rc)))"

definition expired :: "time \<Rightarrow> url_row \<Rightarrow> bool" where
  "expired now urlRecord = (case expires_at urlRecord of None \<Rightarrow> False | Some t \<Rightarrow> t < now)"

definition redirectUrl :: "env \<Rightarrow> time \<Rightarrow> string \<Rightarrow> state \<Rightarrow> response \<times> state" where
  "redirectUrl e now shortCode s =
     (case s of (db, rc) \<Rightarrow>
        (case redisService_getUrl now shortCode rc of (cached, rc1) \<Rightarrow>
           (case truthy cached of
              Some url \<Rightarrow> (Redirect url, recordClicks now shortCode (db, rc1))
            | None \<Rightarrow>
                (case dbService_getUrlbyShortCode shortCode db of
                   (Inl err, db1) \<Rightarrow> (Json 500 (Failure ''Failed to redirect''), (db1, rc1))
                 | (Inr None, db1) \<Rightarrow> (Json 404 (Failure ''Short URL not found''), (db1, rc1))
                 | (Inr (Some urlRecord), db1) \<Rightarrow>
                     if expired now urlRecord
                     then
                       (case dbService_deleteUrl shortCode db1 of
                          (Inl err, db2) \<Rightarrow> (Json 500 (Failure ''Failed to redirect''), (db2, rc1))
                        | (Inr _, db2) \<Rightarrow>
                            (Json 410 (Failure ''Short URL has expired''),
                             (db2, snd (redisService_deleteUrl shortCode rc1))))
                     else
                       (Redirect (long_url urlRecord),
                        recordClicks now shortCode
                          (db1, snd (redisService_cacheUrl e now shortCode (long_url urlRecord)
                                       rc1)))))))"

text \<open>The query parameters arrive after \<^verbatim>\<open>parseInt\<close>: \<open>None\<close> is \<^verbatim>\<open>NaN\<close>.\<close>

definition getAllUrls :: "env \<Rightarrow> int option \<Rightarrow> int option \<Rightarrow> state \<Rightarrow> response \<times> state" where
  "getAllUrls e limit_q offset_q s =
     (case s of (db, rc) \<Rightarrow>
        (let limit = (case limit_q of None \<Rightarrow> 50 | Some n \<Rightarrow> if n = 0 then 50 else n);
            offset = (case offset_q of None \<Rightarrow> 0 | Some n \<Rightarrow> n)
        in (case dbService_getAllUrls limit offset db of
             (Inl err, db1) \<Rightarrow> (Json 500 (Failure ''Failed to fetch URLs''), (db1, rc))
           | (Inr rows, db1) \<Rightarrow>
               (case dbService_getTotalUrlCount db1 of
                  (Inl err, db2) \<Rightarrow> (Json 500 (Failure ''Failed to fetch URLs''), (db2, rc))
                | (Inr n_total, db2) \<Rightarrow>
                    (Json 200
                       (Listing
                          (map (\<lambda>url. UrlJson (row_id url) (short_code url)
                                         (BASE_URL e @ ''/'' @ short_code url) (long_url url)
                                         (clicks url) (created_at url) (expires_at url)) rows)
                          n_total limit offset),
                     (db2, rc))))))"

definition getAnalytics :: "string \<Rightarrow> state \<Rightarrow> response \<times> state" where
  "getAnalytics shortCode s =
     (case s of (db, rc) \<Rightarrow>
        (case dbService_getAnalytics shortCode db of
           (Inl err, db1) \<Rightarrow> (Json 500 (Failure ''Failed to fetch analytics''), (db1, rc))
         | (Inr None, db1) \<Rightarrow> (Json 404 (Failure ''Short URL not found''), (db1, rc))
         | (Inr (Some (code, url, n, created, ex)), db1) \<Rightarrow>
             (Json 200 (Analytics code url n created ex), (db1, rc))))"

definition deleteUrl :: "string \<Rightarrow> state \<Rightarrow> response \<times> state" where
  "deleteUrl shortCode s =
     (case s of (db, rc) \<Rightarrow>
        (case dbService_deleteUrl shortCode db of
           (Inl err, db1) \<Rightarrow> (Json 500 (Failure ''Failed to delete URL''), (db1, rc))
         | (Inr None, db1) \<Rightarrow> (Json 404 (Failure ''Short URL not found''), (db1, rc))
         | (Inr (Some deleted), db1) \<Rightarrow>
             (Json 200 (Message ''Short URL deleted successfully''),
              (db1, snd (redisService_deleteUrl shortCode rc)))))"

subsection \<open>The handlers and a Redis server that cannot be reached\<close>

text \<open>
  config/redis.js creates the client with its default options: a command has no timeout,
  and a command sent while the socket is not ready is put in the client's queue. Such a
  command is neither answered nor rejected; its promise settles when the server is
  reached again, and never while the server stays out of reach. (The pool of
  config/database.js sets \<^verbatim>\<open>connectionTimeoutMillis: 2000\<close>, so that a database out of reach
  rejects.) \<open>sendCommand\<close> above is a command that settles, and the handlers above
  are the handlers while every command settles.

  Every method of the Redis service begins by awaiting a command, and the handlers await
  the methods they call, the click recording apart. The handlers below have the parameter
  \<open>ready\<close>: whether the server can be reached during the call. Their response is
  \<open>None\<close> when the handler never answers: it has come to the first Redis method it
  awaits and stays there, after whatever it did to the table before. The first statement
  of \<^verbatim>\<open>redirectUrl\<close> awaits \<^verbatim>\<open>redisService.getUrl\<close>; \<^verbatim>\<open>createShortUrl\<close> awaits
  \<^verbatim>\<open>redisService.cacheUrl\<close> after its insertion, \<^verbatim>\<open>deleteUrl\<close> awaits
  \<^verbatim>\<open>redisService.deleteUrl\<close> after its deletion.
\<close>

definition answered :: "response \<times> state \<Rightarrow> response option \<times> state" where
  "answered r = (Some (fst r), snd r)"

definition createShortUrl_store_client ::
  "bool \<Rightarrow> env \<Rightarrow> time \<Rightarrow> string \<Rightarrow> string \<Rightarrow> create_request \<Rightarrow> state
     \<Rightarrow> response option \<times> state" where
  "createShortUrl_store_client ready e now shortCode url req s =
     (case s of (db, rc) \<Rightarrow>
        (let expiresAt = requested_expiry now req;
             userIp = requested_ip req
         in (case dbService_createUrl now shortCode url userIp expiresAt db of
             (Inl err, db1) \<Rightarrow>
               (Some (Json 500 (Failure ''Failed to create short URL'')), (db1, rc))
           | (Inr urlRecord, db1) \<Rightarrow>
               if \<not> ready then (None, (db1, rc))
               else
                 let rc1 = snd (redisService_cacheUrl e now shortCode url rc);
                     rc2 = snd (redisService_cacheMetadata e now shortCode
                                  (row_id urlRecord, created_at urlRecord, expires_at urlRecord)
                                  rc1)
                 in (Some (Json 201 (Created (UrlJson (row_id urlRecord) shortCode
                                                (BASE_URL e @ ''/'' @ shortCode) url 0
                                                (created_at urlRecord) (expires_at urlRecord)))),
                     (db1, rc2)))))"

definition createShortUrl_client ::
  "bool \<Rightarrow> env \<Rightarrow> time \<Rightarrow> string \<Rightarrow> create_request \<Rightarrow> state \<Rightarrow> response option \<times> state" where
  "createShortUrl_client ready e now nanoid req s =
     (case s of (db, rc) \<Rightarrow>
        (case truthy (longUrl req) of
           None \<Rightarrow> (Some (Json 400 (Failure ''Invalid URL provided'')), s)
         | Some url \<Rightarrow>
             if \<not> isURL e url then (Some (Json 400 (Failure ''Invalid URL provided'')), s)
             else
               (case truthy (customCode req) of
                  None \<Rightarrow> createShortUrl_store_client ready e now nanoid url req s
                | Some code \<Rightarrow>
                    if 10 < length code \<or> length code < 4
                    then (Some (Json 400
                                  (Failure ''Custom code must be between 4 and 10 characters'')), s)
                    else
                      (case dbService_getUrlbyShortCode code db of
                         (Inl err, db1) \<Rightarrow>
                           (Some (Json 500 (Failure ''Failed to create short URL'')), (db1, rc))
                       | (Inr (Some existing), db1) \<Rightarrow>
                           (Some (Json 409 (Failure ''Custom code already in use'')), (db1, rc))
                       | (Inr None, db1) \<Rightarrow>
                           createShortUrl_store_client ready e now code url req (db1, rc)))))"

definition redirectUrl_client ::
  "bool \<Rightarrow> env \<Rightarrow> time \<Rightarrow> string \<Rightarrow> state \<Rightarrow> response option \<times> state" where
  "redirectUrl_client ready e now shortCode s =
     (if \<not> ready then (None, s) else answered (redirectUrl e now shortCode s))"

definition deleteUrl_client :: "bool \<Rightarrow> string \<Rightarrow> state \<Rightarrow> response option \<times> state" where
  "deleteUrl_client ready shortCode s =
     (case s of (db, rc) \<Rightarrow>
        (case dbService_deleteUrl shortCode db of
           (Inl err, db1) \<Rightarrow> (Some (Json 500 (Failure ''Failed to delete URL'')), (db1, rc))
         | (Inr None, db1) \<Rightarrow> (Some (Json 404 (Failure ''Short URL not found'')), (db1, rc))
         | (Inr (Some deleted), db1) \<Rightarrow>
             if \<not> ready then (None, (db1, rc))
             else (Some (Json 200 (Message ''Short URL deleted successfully'')),
                   (db1, snd (redisService_deleteUrl shortCode rc)))))"

section \<open>Reading the state\<close>

text \<open>The uniqueness constraint on \<^verbatim>\<open>short_code\<close>.\<close>

definition unique_codes :: "database \<Rightarrow> bool" where
  "unique_codes db = distinct (map short_code (urls db))"

text \<open>The mapping stored under a code: the row a lookup by that code returns.\<close>

definition find_row :: "string \<Rightarrow> database \<Rightarrow> url_row option" where
  "find_row code db = first_row (where_short_code code db)"

text \<open>The destination the cache serves for a code at an instant: the value of a live
  key \<^verbatim>\<open>url:code\<close> that JavaScript reads as true.\<close>

definition cached_url :: "time \<Rightarrow> string \<Rightarrow> redis \<Rightarrow> string option" where
  "cached_url now code rc = truthy (map_option fst (lookup now (''url:'' @ code) rc))"

text \<open>The row that a successful insertion adds for a request.\<close>

definition new_row :: "time \<Rightarrow> string \<Rightarrow> string \<Rightarrow> create_request \<Rightarrow> database \<Rightarrow> url_row" where
  "new_row now code url req db =
     \<lparr>row_id = urls_id_seq db, short_code = code, long_url = url, clicks = 0,
      created_at = now, expires_at = requested_expiry now req, user_ip = requested_ip req\<rparr>"

text \<open>The effect of the \<^verbatim>\<open>UPDATE\<close> statement on one row, the lookup by code on a list of
  rows, and the two shapes the table can have after a Create.\<close>

definition bump :: "string \<Rightarrow> url_row \<Rightarrow> url_row" where
  "bump code r = (if short_code r = code then r\<lparr>clicks := clicks r + 1\<rparr> else r)"

definition lookup_rows :: "string \<Rightarrow> url_row list \<Rightarrow> url_row option" where
  "lookup_rows c rows = first_row (filter (\<lambda>r. short_code r = c) rows)"

definition created_step :: "url_row list \<Rightarrow> url_row list \<Rightarrow> bool" where
  "created_step rows rows' =
     (rows' = rows \<or>
      (\<exists>row. lookup_rows (short_code row) rows = None \<and> clicks row = 0 \<and> rows' = rows @ [row]))"

fun status :: "response \<Rightarrow> nat" where
  "status (Json n b) = n"
| "status (Redirect url) = 302"

text \<open>Successive Resolves of one code, at the given instants: the responses in order.\<close>

fun redirectUrl_each :: "env \<Rightarrow> string \<Rightarrow> time list \<Rightarrow> state \<Rightarrow> response list" where
  "redirectUrl_each e code [] s = []"
| "redirectUrl_each e code (t # ts) s =
     fst (redirectUrl e t code s) # redirectUrl_each e code ts (snd (redirectUrl e t code s))"

text \<open>The five operations of the controller as one step function on the state.\<close>

datatype operation =
    Create env time string create_request
  | Resolve env time string
  | Delete string
  | ListAll env "int option" "int option"
  | GetAnalytics string

fun perform :: "operation \<Rightarrow> state \<Rightarrow> response \<times> state" where
  "perform (Create e now nanoid req) s = createShortUrl e now nanoid req s"
| "perform (Resolve e now code) s = redirectUrl e now code s"
| "perform (Delete code) s = deleteUrl code s"
| "perform (ListAll e limit_q offset_q) s = getAllUrls e limit_q offset_q s"
| "perform (GetAnalytics code) s = getAnalytics code s"

section \<open>Example data\<close>

text \<open>A validator that accepts the strings starting with \<^verbatim>\<open>https://\<close>, a stored mapping
  that expired at instant 1000, a stored mapping without expiry, an empty cache, and
  three requests.\<close>

definition ex_env :: env where
  "ex_env = \<lparr>isURL = (\<lambda>u. take 8 u = ''https://''), JSON_stringify = (\<lambda>m. ''{}''),
            BASE_URL = ''http://sho.rt'', REDIS_TTL = None\<rparr>"

definition ex_row1 :: url_row where
  "ex_row1 = \<lparr>row_id = 1, short_code = ''abc1234'', long_url = ''https://example.com/a'',
            clicks = 3, created_at = 0, expires_at = Some 1000, user_ip = None\<rparr>"

definition ex_row2 :: url_row where
  "ex_row2 = \<lparr>row_id = 2, short_code = ''short1'', long_url = ''https://x.com'',
            clicks = 0, created_at = 10, expires_at = None, user_ip = None\<rparr>"

definition ex_db0 :: database where
  "ex_db0 = \<lparr>urls = [], urls_id_seq = 1, db_faults = []\<rparr>"

definition ex_db1 :: database where
  "ex_db1 = \<lparr>urls = [ex_row1], urls_id_seq = 2, db_faults = []\<rparr>"

definition ex_db2 :: database where
  "ex_db2 = \<lparr>urls = [ex_row1, ex_row2], urls_id_seq = 3, db_faults = []\<rparr>"

definition ex_rc0 :: redis where
  "ex_rc0 = \<lparr>kv = Map.empty, redis_faults = []\<rparr>"

definition ex_rc1 :: redis where
  "ex_rc1 = \<lparr>kv = [''url:abc1234'' \<mapsto> (''https://example.com/a'', Some 86400000),
                    ''meta:abc1234'' \<mapsto> (''{}'', Some 86400000),
                    ''clicks:abc1234'' \<mapsto> (''2'', None)],
              redis_faults = []\<rparr>"

text \<open>A cache that holds a stale destination for \<^verbatim>\<open>short1\<close> and fails on every one of
  the next eight commands.\<close>

definition ex_rc_down :: redis where
  "ex_rc_down = \<lparr>kv = [''url:short1'' \<mapsto> (''https://stale.example'', None)],
                  redis_faults = [True, True, True, True, True, True, True, True]\<rparr>"

definition req_custom :: "string \<Rightarrow> create_request" where
  "req_custom code = \<lparr>longUrl = Some ''https://example.com/b'', customCode = Some code,
                       expiresIn = None, req_ip = Some ''10.0.0.1'', remoteAddress = None\<rparr>"

definition req_ttl :: create_request where
  "req_ttl = \<lparr>longUrl = Some ''https://example.com/a'', customCode = None,
               expiresIn = Some 1, req_ip = Some ''10.0.0.1'', remoteAddress = None\<rparr>"

named_theorems model \<open>the defining equations of the model, for evaluation\<close>

declare take_fault_def [model] pool_query_def [model] where_short_code_def [model]
  first_row_def [model] timestamp_error_def [model] sql_insert_def [model] sql_select_def [model]
  sql_select_page_def [model] sql_increment_def [model] sql_delete_def [model]
  sql_count_def [model] dbService_createUrl_def [model]
  dbService_getUrlbyShortCode_def [model] dbService_getAllUrls_def [model]
  dbService_incrementClicks_def [model] dbService_deleteUrl_def [model]
  dbService_getAnalytics_def [model] dbService_getTotalUrlCount_def [model]
  sendCommand_def [model] live_def [model] lookup_def [model] GET_def [model]
  SETEX_def [model] DEL_def [model] INCR_def [model] CACHE_TTL_def [model]
  redisService_cacheUrl_def [model] redisService_getUrl_def [model]
  redisService_incrementClicks_def [model] redisService_deleteUrl_def [model]
  redisService_cacheMetadata_def [model] truthy_def [model]
  requested_expiry_def [model] requested_ip_def [model]
  createShortUrl_store_def [model] createShortUrl_def [model] recordClicks_def [model]
  expired_def [model] redirectUrl_def [model] getAllUrls_def [model]
  getAnalytics_def [model] deleteUrl_def [model] answered_def [model]
  createShortUrl_store_client_def [model] createShortUrl_client_def [model]
  redirectUrl_client_def [model] deleteUrl_client_def [model] find_row_def [model]
  cached_url_def [model] unique_codes_def [model] Let_def [model]
  ex_env_def [model] ex_row1_def [model] ex_row2_def [model] ex_db0_def [model] ex_db1_def [model]
  ex_db2_def [model] ex_rc0_def [model] ex_rc1_def [model] ex_rc_down_def [model] req_custom_def [model] req_ttl_def [model]

section \<open>Basic facts\<close>

lemma pool_query_ok: "db_faults db = [] \<Longrightarrow> pool_query stmt db = stmt db"
  by (cases db) (simp add: pool_query_def take_fault_def)

lemma sendCommand_ok: "redis_faults rc = [] \<Longrightarrow> sendCommand cmd rc = cmd rc"
  by (cases rc) (simp add: sendCommand_def take_fault_def)

lemma getUrlbyShortCode_ok:
  "db_faults db = [] \<Longrightarrow> dbService_getUrlbyShortCode code db = (Inr (find_row code db), db)"
  by (simp add: dbService_getUrlbyShortCode_def pool_query_ok sql_select_def find_row_def)

lemma dbService_deleteUrl_ok:
  "db_faults db = [] \<Longrightarrow>
   dbService_deleteUrl code db =
     (Inr (find_row code db), db\<lparr>urls := filter (\<lambda>r. short_code r \<noteq> code) (urls db)\<rparr>)"
  by (simp add: dbService_deleteUrl_def pool_query_ok sql_delete_def find_row_def)

lemma dbService_getAnalytics_ok:
  "db_faults db = [] \<Longrightarrow>
   dbService_getAnalytics code db =
     (Inr (map_option (\<lambda>r. (short_code r, long_url r, clicks r, created_at r, expires_at r))
             (find_row code db)), db)"
  by (simp add: dbService_getAnalytics_def pool_query_ok sql_select_def first_row_def
      find_row_def split: list.splits)

lemma filter_unique:
  "distinct (map f xs) \<Longrightarrow> x \<in> set xs \<Longrightarrow> filter (\<lambda>r. f r = f x) xs = [x]"
proof (induction xs)
  case Nil
  then show ?case by simp
next
  case (Cons a xs)
  show ?case
  proof (cases "a = x")
    case True
    have "f x \<notin> f ` set xs"
      using Cons.prems(1) True by simp
    then have "filter (\<lambda>r. f r = f x) xs = []"
      unfolding filter_empty_conv by (metis imageI)
    with True show ?thesis by simp
  next
    case False
    with Cons.prems have "x \<in> set xs" "f a \<noteq> f x" by auto
    with Cons show ?thesis by simp
  qed
qed

lemma find_row_unique:
  "unique_codes db \<Longrightarrow> r \<in> set (urls db) \<Longrightarrow> find_row (short_code r) db = Some r"
  by (simp add: unique_codes_def where_short_code_def filter_unique find_row_def first_row_def)

lemma filter_Cons_head: "filter P xs = r # ys \<Longrightarrow> P r \<and> r \<in> set xs"
proof -
  assume a: "filter P xs = r # ys"
  have "r \<in> set (filter P xs)" by (simp add: a)
  then show ?thesis by simp
qed

lemma find_row_Some:
  "find_row code db = Some r \<Longrightarrow> short_code r = code \<and> r \<in> set (urls db)"
  by (auto simp: find_row_def first_row_def where_short_code_def split: list.splits
      dest: filter_Cons_head)

lemma find_row_deleted:
  "find_row code (db\<lparr>urls := filter (\<lambda>r. short_code r \<noteq> code) (urls db)\<rparr>) = None"
proof -
  have "filter (\<lambda>r. short_code r = code) (filter (\<lambda>r. short_code r \<noteq> code) (urls db)) = []"
    by (induction "urls db") (auto simp: filter_empty_conv)
  then show ?thesis
    by (simp add: find_row_def where_short_code_def first_row_def)
qed

section \<open>Analytics\<close>

text \<open>
  C10. \<^verbatim>\<open>getAnalytics\<close> never checks the logical expiry. For every mapping that is
  present in the table and whose \<^verbatim>\<open>expires_at\<close> lies in the past, the handler answers 200
  with the short code, the destination, the clicks, the creation time and the expiry of
  that mapping, and leaves the table and the cache as they are.
\<close>

theorem getAnalytics_ignores_expiry:
  assumes "unique_codes db" and "db_faults db = []" and "r \<in> set (urls db)"
    and "expired now r"
  shows "getAnalytics (short_code r) (db, rc) =
           (Json 200 (Analytics (short_code r) (long_url r) (clicks r) (created_at r)
                        (expires_at r)), (db, rc))"
  using assms
  by (simp add: getAnalytics_def dbService_getAnalytics_ok find_row_unique)

theorem getAnalytics_ignores_expiry_witness:
  "expired 5000 ex_row1 \<and>
   getAnalytics ''abc1234'' (ex_db1, ex_rc0) =
     (Json 200 (Analytics ''abc1234'' ''https://example.com/a'' 3 0 (Some 1000)), (ex_db1, ex_rc0))"
  using getAnalytics_ignores_expiry [of ex_db1 ex_row1 5000 ex_rc0]
  by (simp add: ex_db1_def ex_row1_def unique_codes_def expired_def)

section \<open>Delete\<close>

lemma deleteUrl_missing:
  "db_faults db = [] \<Longrightarrow> find_row code db = None \<Longrightarrow>
   deleteUrl code (db, rc) = (Json 404 (Failure ''Short URL not found''), (db, rc))"
proof -
  assume a: "db_faults db = []" "find_row code db = None"
  then have "filter (\<lambda>r. short_code r \<noteq> code) (urls db) = urls db"
    by (auto simp: find_row_def first_row_def where_short_code_def filter_empty_conv
        filter_id_conv split: list.splits)
  with a show ?thesis
    by (simp add: deleteUrl_def dbService_deleteUrl_ok)
qed

lemma deleteUrl_found:
  "db_faults db = [] \<Longrightarrow> find_row code db = Some r \<Longrightarrow>
   deleteUrl code (db, rc) =
     (Json 200 (Message ''Short URL deleted successfully''),
      (db\<lparr>urls := filter (\<lambda>r. short_code r \<noteq> code) (urls db)\<rparr>,
       snd (redisService_deleteUrl code rc)))"
  by (simp add: deleteUrl_def dbService_deleteUrl_ok)

text \<open>
  C9, as stated, fails on what Delete returns: the handler receives the deleted row from
  \<^verbatim>\<open>dbService.deleteUrl\<close>, tests it, and sends
  \<^verbatim>\<open>{success: true, message: 'Short URL deleted successfully'}\<close>. Here two different
  mappings are deleted, and the response is the same message for both.
\<close>

theorem deleteUrl_response_counterexample:
  "find_row ''abc1234'' ex_db2 = Some ex_row1 \<and> find_row ''short1'' ex_db2 = Some ex_row2 \<and>
   fst (deleteUrl ''abc1234'' (ex_db2, ex_rc0)) =
     Json 200 (Message ''Short URL deleted successfully'') \<and>
   fst (deleteUrl ''short1'' (ex_db2, ex_rc0)) =
     Json 200 (Message ''Short URL deleted successfully'')"
  by (simp add: model)

text \<open>
  C9, amended. While the database answers: deleting a code that has no mapping yields 404
  (NotFound) and changes nothing. Deleting a code that has a mapping yields 200 with a
  confirmation message, which does not carry the mapping (the deleted mapping is what
  \<^verbatim>\<open>dbService.deleteUrl\<close> returns to the handler); no mapping is left under the code, and
  deleting the same code again yields 404.
\<close>

theorem deleteUrl_success_then_not_found:
  assumes "db_faults db = []"
  shows "(find_row code db = None \<longrightarrow>
            deleteUrl code (db, rc) = (Json 404 (Failure ''Short URL not found''), (db, rc)))
       \<and> (\<forall>r. find_row code db = Some r \<longrightarrow>
            fst (dbService_deleteUrl code db) = Inr (Some r) \<and> short_code r = code \<and>
            fst (deleteUrl code (db, rc)) = Json 200 (Message ''Short URL deleted successfully'') \<and>
            find_row code (fst (snd (deleteUrl code (db, rc)))) = None \<and>
            fst (deleteUrl code (snd (deleteUrl code (db, rc)))) =
              Json 404 (Failure ''Short URL not found''))"
proof (intro conjI allI impI)
  assume "find_row code db = None"
  with assms show "deleteUrl code (db, rc) = (Json 404 (Failure ''Short URL not found''), (db, rc))"
    by (rule deleteUrl_missing)
next
  fix r assume r: "find_row code db = Some r"
  let ?db' = "db\<lparr>urls := filter (\<lambda>r. short_code r \<noteq> code) (urls db)\<rparr>"
  have d: "deleteUrl code (db, rc) =
     (Json 200 (Message ''Short URL deleted successfully''),
      (?db', snd (redisService_deleteUrl code rc)))"
    using assms r by (rule deleteUrl_found)
  show "fst (dbService_deleteUrl code db) = Inr (Some r)"
    using assms r by (simp add: dbService_deleteUrl_ok)
  show "short_code r = code" using r by (simp add: find_row_Some)
  show "fst (deleteUrl code (db, rc)) = Json 200 (Message ''Short URL deleted successfully'')"
    by (simp add: d)
  show "find_row code (fst (snd (deleteUrl code (db, rc)))) = None"
    by (simp add: d find_row_deleted)
  have "db_faults ?db' = []" using assms by simp
  then have "deleteUrl code (?db', snd (redisService_deleteUrl code rc)) =
      (Json 404 (Failure ''Short URL not found''), (?db', snd (redisService_deleteUrl code rc)))"
    by (rule deleteUrl_missing) (rule find_row_deleted)
  then show "fst (deleteUrl code (snd (deleteUrl code (db, rc)))) =
      Json 404 (Failure ''Short URL not found'')"
    by (simp add: d)
qed

theorem deleteUrl_success_then_not_found_witness:
  "find_row ''nocode1'' ex_db2 = None \<and>
   deleteUrl ''nocode1'' (ex_db2, ex_rc0) = (Json 404 (Failure ''Short URL not found''), (ex_db2, ex_rc0)) \<and>
   find_row ''short1'' ex_db2 = Some ex_row2 \<and>
   fst (dbService_deleteUrl ''short1'' ex_db2) = Inr (Some ex_row2) \<and>
   fst (deleteUrl ''short1'' (ex_db2, ex_rc0)) = Json 200 (Message ''Short URL deleted successfully'') \<and>
   fst (deleteUrl ''short1'' (snd (deleteUrl ''short1'' (ex_db2, ex_rc0)))) =
     Json 404 (Failure ''Short URL not found'')"
proof -
  have f: "db_faults ex_db2 = []" by (simp add: ex_db2_def)
  have n: "find_row ''nocode1'' ex_db2 = None"
    by (simp add: find_row_def where_short_code_def first_row_def ex_db2_def ex_row1_def ex_row2_def)
  have s: "find_row ''short1'' ex_db2 = Some ex_row2"
    by (simp add: find_row_def where_short_code_def first_row_def ex_db2_def ex_row1_def ex_row2_def)
  show ?thesis
    using deleteUrl_success_then_not_found [OF f, of "''nocode1''" ex_rc0]
      deleteUrl_success_then_not_found [OF f, of "''short1''" ex_rc0] n s
    by simp
qed


section \<open>Cache invalidation\<close>

lemma redisService_deleteUrl_ok:
  "redis_faults rc = [] \<Longrightarrow>
   redisService_deleteUrl code rc =
     (True, rc\<lparr>kv := (kv rc)(''url:'' @ code := None, ''clicks:'' @ code := None)\<rparr>)"
  by (simp add: redisService_deleteUrl_def sendCommand_ok DEL_def)

text \<open>
  C4, as stated, fails on the metadata entry: \<^verbatim>\<open>redisService.deleteUrl\<close> deletes the keys
  \<^verbatim>\<open>url:code\<close> and \<^verbatim>\<open>clicks:code\<close> and no other. Here a mapping is created, which caches
  its metadata under \<^verbatim>\<open>meta:abc1234\<close>, and then deleted through the handler: the metadata
  entry is still in the cache.
\<close>

theorem invalidation_keeps_metadata_counterexample:
  "fst (deleteUrl ''abc1234'' (snd (createShortUrl ex_env 0 ''abc1234'' req_ttl (ex_db0, ex_rc0)))) =
     Json 200 (Message ''Short URL deleted successfully'') \<and>
   kv (snd (snd (deleteUrl ''abc1234''
         (snd (createShortUrl ex_env 0 ''abc1234'' req_ttl (ex_db0, ex_rc0))))))
      ''meta:abc1234'' = Some (''{}'', Some 86400000)"
  by (simp add: model)

text \<open>
  C4, amended. When the cache answers, invalidation of a code removes the destination
  entry \<^verbatim>\<open>url:code\<close> and the click-counter entry \<^verbatim>\<open>clicks:code\<close>; the metadata entry
  \<^verbatim>\<open>meta:code\<close> and every other key are left as they were. The handler of Delete, on a
  mapping that exists, leaves the cache in exactly the state this invalidation produces.
\<close>

theorem invalidation_removes_url_and_clicks:
  assumes "redis_faults rc = []"
  shows "kv (snd (redisService_deleteUrl code rc)) (''url:'' @ code) = None
       \<and> kv (snd (redisService_deleteUrl code rc)) (''clicks:'' @ code) = None
       \<and> kv (snd (redisService_deleteUrl code rc)) (''meta:'' @ code) = kv rc (''meta:'' @ code)
       \<and> (\<forall>key. key \<noteq> ''url:'' @ code \<and> key \<noteq> ''clicks:'' @ code \<longrightarrow>
             kv (snd (redisService_deleteUrl code rc)) key = kv rc key)
       \<and> (\<forall>db r. db_faults db = [] \<and> find_row code db = Some r \<longrightarrow>
             snd (snd (deleteUrl code (db, rc))) = snd (redisService_deleteUrl code rc))"
  using assms by (simp add: redisService_deleteUrl_ok deleteUrl_found)

theorem invalidation_removes_url_and_clicks_witness:
  "redis_faults ex_rc1 = [] \<and>
   kv ex_rc1 ''url:abc1234'' = Some (''https://example.com/a'', Some 86400000) \<and>
   kv ex_rc1 ''clicks:abc1234'' = Some (''2'', None) \<and>
   kv (snd (redisService_deleteUrl ''abc1234'' ex_rc1)) ''url:abc1234'' = None \<and>
   kv (snd (redisService_deleteUrl ''abc1234'' ex_rc1)) ''clicks:abc1234'' = None \<and>
   kv (snd (redisService_deleteUrl ''abc1234'' ex_rc1)) ''meta:abc1234'' =
     Some (''{}'', Some 86400000)"
proof -
  have f: "redis_faults ex_rc1 = []" by (simp add: ex_rc1_def)
  show ?thesis
    using invalidation_removes_url_and_clicks [OF f, of "''abc1234''"]
    by (simp add: ex_rc1_def)
qed

section \<open>Create: the custom code\<close>

lemma createShortUrl_custom_in_window:
  assumes "longUrl req = Some url" "url \<noteq> []" "isURL e url" "customCode req = Some code"
    "4 \<le> length code" "length code \<le> 10"
  shows "createShortUrl e now nanoid req (db, rc) =
           (case dbService_getUrlbyShortCode code db of
              (Inl err, db') \<Rightarrow> (Json 500 (Failure ''Failed to create short URL''), (db', rc))
            | (Inr (Some existing), db') \<Rightarrow>
                (Json 409 (Failure ''Custom code already in use''), (db', rc))
            | (Inr None, db') \<Rightarrow> createShortUrl_store e now code url req (db', rc))"
proof -
  have "code \<noteq> []" using assms(5) by auto
  with assms show ?thesis
    by (simp add: createShortUrl_def truthy_def)
qed

lemma createShortUrl_store_status:
  "status (fst (createShortUrl_store e now code url req s)) = 500 \<or>
   status (fst (createShortUrl_store e now code url req s)) = 201"
  by (cases s) (simp add: createShortUrl_store_def Let_def split: prod.splits sum.splits)

text \<open>
  C1, as stated, fails on its second half: the liveness check of \<^verbatim>\<open>createShortUrl\<close> tests
  only whether a row with the code exists. Here the stored mapping \<open>ex_row1\<close> expired at
  instant 1000, the request arrives at instant 5000, and the answer is 409.
\<close>

theorem create_expired_code_counterexample:
  "expired 5000 ex_row1 \<and> find_row ''abc1234'' ex_db1 = Some ex_row1 \<and>
   fst (createShortUrl ex_env 5000 ''zzzzzzz'' (req_custom ''abc1234'') (ex_db1, ex_rc0)) =
     Json 409 (Failure ''Custom code already in use'')"
  by (simp add: model)

text \<open>
  C1, amended. For every Create call with a valid URL and a custom code of 4 to 10
  characters, while the database answers: if a mapping with that code is present in the
  table, expired or not, Create returns 409 (Conflict) and changes neither the table nor
  the cache.
\<close>

theorem create_existing_code_conflict:
  assumes "longUrl req = Some url" "url \<noteq> []" "isURL e url" "customCode req = Some code"
    "4 \<le> length code" "length code \<le> 10" "db_faults db = []" "find_row code db = Some r"
  shows "createShortUrl e now nanoid req (db, rc) =
           (Json 409 (Failure ''Custom code already in use''), (db, rc))"
  using assms(7,8)
  by (simp add: createShortUrl_custom_in_window [OF assms(1-6)] getUrlbyShortCode_ok)

theorem create_existing_code_conflict_witness:
  "\<not> expired 5000 ex_row2 \<and> find_row ''short1'' ex_db2 = Some ex_row2 \<and>
   createShortUrl ex_env 5000 ''zzzzzzz'' (req_custom ''short1'') (ex_db2, ex_rc0) =
     (Json 409 (Failure ''Custom code already in use''), (ex_db2, ex_rc0))"
proof -
  have f: "find_row ''short1'' ex_db2 = Some ex_row2"
    by (simp add: find_row_def where_short_code_def first_row_def ex_db2_def ex_row1_def
        ex_row2_def)
  have "createShortUrl ex_env 5000 ''zzzzzzz'' (req_custom ''short1'') (ex_db2, ex_rc0) =
     (Json 409 (Failure ''Custom code already in use''), (ex_db2, ex_rc0))"
    using f
    by (intro create_existing_code_conflict [where url = "''https://example.com/b''"
          and r = ex_row2 and code = "''short1''"])
      (simp_all add: req_custom_def ex_env_def ex_db2_def)
  with f show ?thesis by (simp add: expired_def ex_row2_def)
qed

text \<open>
  C2, as stated, fails on the alphabet: \<^verbatim>\<open>createShortUrl\<close> checks the length of the custom
  code and nothing else (\<^verbatim>\<open>isValidShortCode\<close> is never called). Here the custom code
  \<^verbatim>\<open>my-code\<close> holds a hyphen, which is outside the alphabet, and the mapping is created.
\<close>

theorem create_custom_code_alphabet_counterexample:
  "CHR ''-'' \<in> set ''my-code'' \<and> CHR ''-'' \<notin> set alphabet \<and>
   fst (createShortUrl ex_env 0 ''zzzzzzz'' (req_custom ''my-code'') (ex_db0, ex_rc0)) =
     Json 201 (Created (UrlJson 1 ''my-code'' ''http://sho.rt/my-code''
                          ''https://example.com/b'' 0 0 None))"
  by (simp add: model alphabet_def)

text \<open>
  C2, amended. For every non-empty string submitted as a custom code with a valid URL,
  Create answers 400 (InvalidInput) exactly when the string is shorter than 4 or longer
  than 10 characters; membership of its characters in the alphabet is not checked.
\<close>

theorem custom_code_length_only:
  assumes "longUrl req = Some url" "url \<noteq> []" "isURL e url" "customCode req = Some code"
    "code \<noteq> []"
  shows "(status (fst (createShortUrl e now nanoid req (db, rc))) = 400) =
           (length code < 4 \<or> 10 < length code)"
proof (cases "length code < 4 \<or> 10 < length code")
  case True
  with assms show ?thesis
    by (auto simp add: createShortUrl_def truthy_def)
next
  case False
  then have w: "4 \<le> length code" "length code \<le> 10" by auto
  obtain res db' where g: "dbService_getUrlbyShortCode code db = (res, db')"
    by (cases "dbService_getUrlbyShortCode code db")
  have "status (fst (createShortUrl e now nanoid req (db, rc))) \<noteq> 400"
  proof (cases res)
    case (Inl err)
    then show ?thesis
      by (simp add: createShortUrl_custom_in_window [OF assms(1-4) w] g)
  next
    case (Inr found)
    show ?thesis
    proof (cases found)
      case None
      with Inr createShortUrl_store_status [of e now code url req "(db', rc)"] show ?thesis
        by (auto simp add: createShortUrl_custom_in_window [OF assms(1-4) w] g)
    next
      case (Some existing)
      with Inr show ?thesis
        by (simp add: createShortUrl_custom_in_window [OF assms(1-4) w] g)
    qed
  qed
  with False show ?thesis by simp
qed

theorem custom_code_length_only_witness:
  "status (fst (createShortUrl ex_env 0 ''zzzzzzz'' (req_custom ''a-b'') (ex_db0, ex_rc0))) = 400 \<and>
   status (fst (createShortUrl ex_env 0 ''zzzzzzz'' (req_custom ''a-b_c'') (ex_db0, ex_rc0))) \<noteq> 400 \<and>
   status (fst (createShortUrl ex_env 0 ''zzzzzzz'' (req_custom ''abcdefghijk'') (ex_db0, ex_rc0))) = 400"
  using custom_code_length_only [of "req_custom ''a-b''" "''https://example.com/b''" ex_env
      "''a-b''" 0 "''zzzzzzz''" ex_db0 ex_rc0]
    custom_code_length_only [of "req_custom ''a-b_c''" "''https://example.com/b''" ex_env
      "''a-b_c''" 0 "''zzzzzzz''" ex_db0 ex_rc0]
    custom_code_length_only [of "req_custom ''abcdefghijk''" "''https://example.com/b''" ex_env
      "''abcdefghijk''" 0 "''zzzzzzz''" ex_db0 ex_rc0]
  by (simp add: req_custom_def ex_env_def)

section \<open>Resolve\<close>

lemma redisService_getUrl_cases:
  "redisService_getUrl now code rc = (None, rc\<lparr>redis_faults := tl (redis_faults rc)\<rparr>) \<or>
   redisService_getUrl now code rc =
     (map_option fst (lookup now (''url:'' @ code) rc), rc\<lparr>redis_faults := tl (redis_faults rc)\<rparr>)"
  by (cases rc) (auto simp add: redisService_getUrl_def sendCommand_def take_fault_def GET_def lookup_def
      split: list.splits)

lemma redisService_getUrl_kv [simp]: "kv (snd (redisService_getUrl now code rc)) = kv rc"
  using redisService_getUrl_cases [of now code rc] by auto

lemma redisService_getUrl_miss:
  "cached_url now code rc = None \<Longrightarrow> truthy (fst (redisService_getUrl now code rc)) = None"
  using redisService_getUrl_cases [of now code rc]
  by (auto simp: cached_url_def truthy_def)

lemma redisService_getUrl_hit:
  "truthy (fst (redisService_getUrl now code rc)) = Some url \<Longrightarrow> cached_url now code rc = Some url"
  using redisService_getUrl_cases [of now code rc]
  by (auto simp: cached_url_def truthy_def)

lemma redirectUrl_hit:
  "truthy (fst (redisService_getUrl now code rc)) = Some url \<Longrightarrow>
   redirectUrl e now code (db, rc) =
     (Redirect url, recordClicks now code (db, snd (redisService_getUrl now code rc)))"
  by (simp add: redirectUrl_def split_def)

lemma redirectUrl_miss:
  "db_faults db = [] \<Longrightarrow> truthy (fst (redisService_getUrl now code rc)) = None \<Longrightarrow>
   redirectUrl e now code (db, rc) =
     (case find_row code db of
        None \<Rightarrow> (Json 404 (Failure ''Short URL not found''),
                   (db, snd (redisService_getUrl now code rc)))
      | Some r \<Rightarrow>
          if expired now r
          then (Json 410 (Failure ''Short URL has expired''),
                (db\<lparr>urls := filter (\<lambda>r. short_code r \<noteq> code) (urls db)\<rparr>,
                 snd (redisService_deleteUrl code (snd (redisService_getUrl now code rc)))))
          else (Redirect (long_url r),
                recordClicks now code
                  (db, snd (redisService_cacheUrl e now code (long_url r)
                              (snd (redisService_getUrl now code rc))))))"
  by (simp add: redirectUrl_def split_def getUrlbyShortCode_ok dbService_deleteUrl_ok
      split: option.splits)

lemma redisService_deleteUrl_url_key:
  "kv (snd (redisService_deleteUrl code rc)) (''url:'' @ code) = None \<or>
   kv (snd (redisService_deleteUrl code rc)) (''url:'' @ code) = kv rc (''url:'' @ code)"
  by (simp add: redisService_deleteUrl_def sendCommand_def DEL_def take_fault_def
      split: list.splits)

lemma live_later: "now \<le> now' \<Longrightarrow> live now' en \<Longrightarrow> live now en"
  by (auto simp: live_def split: option.splits)

lemma cached_url_later:
  assumes "cached_url now code rc = None" "now \<le> now'"
    "kv rc' (''url:'' @ code) = None \<or> kv rc' (''url:'' @ code) = kv rc (''url:'' @ code)"
  shows "cached_url now' code rc' = None"
proof (cases "kv rc' (''url:'' @ code)")
  case None
  then show ?thesis by (simp add: cached_url_def lookup_def truthy_def)
next
  case (Some en)
  with assms(3) have k: "kv rc (''url:'' @ code) = Some en" by auto
  show ?thesis
  proof (cases "live now' en")
    case True
    then have "live now en" using assms(2) live_later by blast
    with assms(1) k have "fst en = []"
      by (auto simp: cached_url_def lookup_def truthy_def split: if_splits)
    with Some True show ?thesis by (simp add: cached_url_def lookup_def truthy_def)
  next
    case False
    with Some show ?thesis by (simp add: cached_url_def lookup_def truthy_def)
  qed
qed

lemma not_found_from_then_on:
  assumes "db_faults d = []" and "find_row code d = None"
    and "cached_url now code rc = None" and "\<forall>t\<in>set ts. now \<le> t"
    and "kv c (''url:'' @ code) = None \<or> kv c (''url:'' @ code) = kv rc (''url:'' @ code)"
  shows "redirectUrl_each e code ts (d, c) =
           replicate (length ts) (Json 404 (Failure ''Short URL not found''))"
  using assms(4,5)
proof (induction ts arbitrary: c)
  case Nil
  show ?case by simp
next
  case (Cons t ts)
  have "now \<le> t" using Cons.prems(1) by simp
  with assms(3) have "cached_url t code c = None"
    using Cons.prems(2) by (rule cached_url_later)
  then have m: "truthy (fst (redisService_getUrl t code c)) = None"
    by (rule redisService_getUrl_miss)
  have step: "redirectUrl e t code (d, c) =
      (Json 404 (Failure ''Short URL not found''), (d, snd (redisService_getUrl t code c)))"
    using assms(2) by (simp add: redirectUrl_miss [OF assms(1) m])
  have "redirectUrl_each e code ts (d, snd (redisService_getUrl t code c)) =
      replicate (length ts) (Json 404 (Failure ''Short URL not found''))"
    using Cons.prems by (intro Cons.IH) simp_all
  then show ?case by (simp add: step)
qed

text \<open>
  C3, as stated, fails when the cache still serves the code: \<^verbatim>\<open>redirectUrl\<close> asks the cache
  first and, on a hit, redirects without looking at \<^verbatim>\<open>expires_at\<close>. Here a mapping is
  created at instant 0 with one second to live; at instant 5000 the stored mapping has
  expired, Resolve still redirects to its destination, and the mapping stays in the table.
\<close>

theorem resolve_expired_cached_counterexample:
  "find_row ''abc1234'' (fst (snd (createShortUrl ex_env 0 ''abc1234'' req_ttl (ex_db0, ex_rc0)))) =
     Some \<lparr>row_id = 1, short_code = ''abc1234'', long_url = ''https://example.com/a'',
           clicks = 0, created_at = 0, expires_at = Some 1000, user_ip = Some ''10.0.0.1''\<rparr> \<and>
   expired 5000 \<lparr>row_id = 1, short_code = ''abc1234'', long_url = ''https://example.com/a'',
           clicks = 0, created_at = 0, expires_at = Some 1000, user_ip = Some ''10.0.0.1''\<rparr> \<and>
   fst (redirectUrl ex_env 5000 ''abc1234''
          (snd (createShortUrl ex_env 0 ''abc1234'' req_ttl (ex_db0, ex_rc0)))) =
     Redirect ''https://example.com/a'' \<and>
   find_row ''abc1234'' (fst (snd (redirectUrl ex_env 5000 ''abc1234''
          (snd (createShortUrl ex_env 0 ''abc1234'' req_ttl (ex_db0, ex_rc0)))))) =
     Some \<lparr>row_id = 1, short_code = ''abc1234'', long_url = ''https://example.com/a'',
           clicks = 1, created_at = 0, expires_at = Some 1000, user_ip = Some ''10.0.0.1''\<rparr>"
  by (simp add: model)

text \<open>
  C3, amended. For every code whose stored mapping has \<^verbatim>\<open>expires_at\<close> in the past and for
  which the cache holds no live destination entry, while the database answers: Resolve
  returns 410 (Expired, distinct from the 404 of NotFound) and deletes the mapping from
  the table; it invalidates the cache (when the cache answers, the entries \<^verbatim>\<open>url:code\<close>
  and \<^verbatim>\<open>clicks:code\<close> are removed and nothing else changes); and every subsequent Resolve
  of the same code, however many follow and at whatever instants from then on, returns
  404 (NotFound).
\<close>

theorem resolve_expired_then_not_found:
  assumes "db_faults db = []" and "find_row code db = Some r" and "expired now r"
    and "cached_url now code rc = None"
  shows "fst (redirectUrl e now code (db, rc)) = Json 410 (Failure ''Short URL has expired'')
       \<and> urls (fst (snd (redirectUrl e now code (db, rc)))) =
           filter (\<lambda>r. short_code r \<noteq> code) (urls db)
       \<and> find_row code (fst (snd (redirectUrl e now code (db, rc)))) = None
       \<and> (redis_faults rc = [] \<longrightarrow>
            kv (snd (snd (redirectUrl e now code (db, rc)))) =
              (kv rc)(''url:'' @ code := None, ''clicks:'' @ code := None))
       \<and> (\<forall>ts. (\<forall>t\<in>set ts. now \<le> t) \<longrightarrow>
            redirectUrl_each e code ts (snd (redirectUrl e now code (db, rc))) =
              replicate (length ts) (Json 404 (Failure ''Short URL not found'')))"
proof -
  let ?rc1 = "snd (redisService_getUrl now code rc)"
  let ?rc2 = "snd (redisService_deleteUrl code ?rc1)"
  let ?db' = "db\<lparr>urls := filter (\<lambda>r. short_code r \<noteq> code) (urls db)\<rparr>"
  have m: "truthy (fst (redisService_getUrl now code rc)) = None"
    using assms(4) by (rule redisService_getUrl_miss)
  have step: "redirectUrl e now code (db, rc) =
      (Json 410 (Failure ''Short URL has expired''), (?db', ?rc2))"
    using assms(2,3) by (simp add: redirectUrl_miss [OF assms(1) m])
  have k: "kv ?rc2 (''url:'' @ code) = None \<or> kv ?rc2 (''url:'' @ code) = kv rc (''url:'' @ code)"
    using redisService_deleteUrl_url_key [of code ?rc1] by simp
  have f': "db_faults ?db' = []" using assms(1) by simp
  have later: "\<forall>ts. (\<forall>t\<in>set ts. now \<le> t) \<longrightarrow>
      redirectUrl_each e code ts (?db', ?rc2) =
        replicate (length ts) (Json 404 (Failure ''Short URL not found''))"
    using not_found_from_then_on [OF f' find_row_deleted assms(4) _ k] by blast
  have inv: "redis_faults rc = [] \<longrightarrow>
      kv ?rc2 = (kv rc)(''url:'' @ code := None, ''clicks:'' @ code := None)"
  proof
    assume a: "redis_faults rc = []"
    have "redis_faults ?rc1 = []"
      using redisService_getUrl_cases [of now code rc] a by auto
    then show "kv ?rc2 = (kv rc)(''url:'' @ code := None, ''clicks:'' @ code := None)"
      by (simp add: redisService_deleteUrl_ok)
  qed
  show ?thesis
    using later inv by (simp add: step find_row_deleted)
qed

theorem resolve_expired_then_not_found_witness:
  "expired 5000 ex_row1 \<and> cached_url 5000 ''abc1234'' ex_rc0 = None \<and>
   fst (redirectUrl ex_env 5000 ''abc1234'' (ex_db1, ex_rc0)) =
     Json 410 (Failure ''Short URL has expired'') \<and>
   urls (fst (snd (redirectUrl ex_env 5000 ''abc1234'' (ex_db1, ex_rc0)))) = [] \<and>
   redirectUrl_each ex_env ''abc1234'' [6000, 5000, 90000000]
     (snd (redirectUrl ex_env 5000 ''abc1234'' (ex_db1, ex_rc0))) =
     [Json 404 (Failure ''Short URL not found''), Json 404 (Failure ''Short URL not found''),
      Json 404 (Failure ''Short URL not found'')]"
proof -
  have a: "db_faults ex_db1 = []" by (simp add: ex_db1_def)
  have b: "find_row ''abc1234'' ex_db1 = Some ex_row1"
    by (simp add: find_row_def where_short_code_def first_row_def ex_db1_def ex_row1_def)
  have c: "expired 5000 ex_row1" by (simp add: expired_def ex_row1_def)
  have d: "cached_url 5000 ''abc1234'' ex_rc0 = None"
    by (simp add: cached_url_def lookup_def truthy_def ex_rc0_def)
  have t: "\<forall>t\<in>set [6000, 5000, 90000000 :: int]. 5000 \<le> t" by simp
  note main = resolve_expired_then_not_found [OF a b c d, of ex_env]
  have "redirectUrl_each ex_env ''abc1234'' [6000, 5000, 90000000]
      (snd (redirectUrl ex_env 5000 ''abc1234'' (ex_db1, ex_rc0))) =
      replicate (length [6000, 5000, 90000000 :: int]) (Json 404 (Failure ''Short URL not found''))"
    using main t by blast
  then have seq: "redirectUrl_each ex_env ''abc1234'' [6000, 5000, 90000000]
      (snd (redirectUrl ex_env 5000 ''abc1234'' (ex_db1, ex_rc0))) =
      [Json 404 (Failure ''Short URL not found''), Json 404 (Failure ''Short URL not found''),
       Json 404 (Failure ''Short URL not found'')]"
    by (simp add: numeral_3_eq_3)
  have "urls (fst (snd (redirectUrl ex_env 5000 ''abc1234'' (ex_db1, ex_rc0)))) =
      filter (\<lambda>r. short_code r \<noteq> ''abc1234'') (urls ex_db1)"
    using main by blast
  then have rows: "urls (fst (snd (redirectUrl ex_env 5000 ''abc1234'' (ex_db1, ex_rc0)))) = []"
    by (simp add: ex_db1_def ex_row1_def)
  show ?thesis
    using main seq rows c d by blast
qed

section \<open>Create: a conflict on insertion\<close>

text \<open>
  C5. When the insertion fails on the uniqueness constraint, \<^verbatim>\<open>dbService.createUrl\<close> throws
  \<^verbatim>\<open>Error('Short code already exists')\<close>, and the handler's only \<^verbatim>\<open>catch\<close> answers 500 with
  \<^verbatim>\<open>Failed to create short URL\<close>: the caller does not receive the 409 that the handler
  sends when its own check finds the code. First conjuncts: the generator returns a code
  that is already stored. Last conjunct: the part of the handler after the check of a
  custom code, run on a table in which another request has meanwhile stored that code.
  In both cases the insertion is attempted once.
\<close>

theorem create_insert_conflict_is_500:
  "find_row ''abc1234'' ex_db1 = Some ex_row1 \<and>
   fst (dbService_createUrl 5000 ''abc1234'' ''https://example.com/a'' (Some ''10.0.0.1'')
          (Some 6000) ex_db1) = Inl (Error ''Short code already exists'') \<and>
   fst (createShortUrl ex_env 5000 ''abc1234'' req_ttl (ex_db1, ex_rc0)) =
     Json 500 (Failure ''Failed to create short URL'') \<and>
   fst (createShortUrl_store ex_env 5000 ''abc1234'' ''https://example.com/b''
          (req_custom ''abc1234'') (ex_db1, ex_rc0)) =
     Json 500 (Failure ''Failed to create short URL'')"
  by (simp add: model)
section \<open>Cache failures\<close>

lemma createShortUrl_store_cache_independent:
  "fst (createShortUrl_store e now code url req (db, rc)) =
     fst (createShortUrl_store e now code url req (db, rc')) \<and>
   fst (snd (createShortUrl_store e now code url req (db, rc))) =
     fst (snd (createShortUrl_store e now code url req (db, rc')))"
  by (simp add: createShortUrl_store_def Let_def split: prod.splits sum.splits)

lemma createShortUrl_cache_independent:
  "fst (createShortUrl e now nanoid req (db, rc)) =
     fst (createShortUrl e now nanoid req (db, rc')) \<and>
   fst (snd (createShortUrl e now nanoid req (db, rc))) =
     fst (snd (createShortUrl e now nanoid req (db, rc')))"
  using createShortUrl_store_cache_independent [of e now _ _ req _ rc rc']
  by (simp add: createShortUrl_def split: prod.splits sum.splits option.splits)

lemma deleteUrl_cache_independent:
  "fst (deleteUrl code (db, rc)) = fst (deleteUrl code (db, rc')) \<and>
   fst (snd (deleteUrl code (db, rc))) = fst (snd (deleteUrl code (db, rc')))"
  by (simp add: deleteUrl_def split: prod.splits sum.splits option.splits)

lemma sendCommand_fault:
  "redis_faults rc = True # fs \<Longrightarrow>
   sendCommand cmd rc = (Inl (ReplyError ''The client is closed''), rc\<lparr>redis_faults := fs\<rparr>)"
  by (simp add: sendCommand_def take_fault_def)

lemma redirectUrl_status:
  "db_faults db = [] \<Longrightarrow> status (fst (redirectUrl e now code (db, rc))) \<in> {302, 404, 410}"
proof (cases "truthy (fst (redisService_getUrl now code rc))")
  case None
  assume "db_faults db = []"
  then show ?thesis
    by (simp add: redirectUrl_miss [OF _ None] split: option.splits)
next
  case (Some url)
  then show ?thesis by (simp add: redirectUrl_hit)
qed

text \<open>
  Failures that the client reports. A rejected cache command never reaches the caller.
  The response of Create and of Delete, and what they do to the table, do not depend on
  the cache at all, neither on its content nor on which of its commands are rejected
  (that they then succeed is the theorem \<open>create_and_delete_succeed_whatever_the_cache\<close>
  below). While the database answers, Resolve never answers 500, whatever the cache
  does. Every method of the Redis service turns a rejected command into \<^verbatim>\<open>false\<close> or
  \<^verbatim>\<open>null\<close> and leaves the entries alone. And when the lookup in the cache misses (the
  command was rejected, or there is no live entry), Resolve falls through to the table:
  it redirects to the destination stored there if the mapping has not expired, and
  answers 404 if there is none.
\<close>

theorem cache_failures_absorbed:
  "fst (createShortUrl e now nanoid req (db, rc)) =
     fst (createShortUrl e now nanoid req (db, rc'))
   \<and> fst (snd (createShortUrl e now nanoid req (db, rc))) =
       fst (snd (createShortUrl e now nanoid req (db, rc')))
   \<and> fst (deleteUrl code (db, rc)) = fst (deleteUrl code (db, rc'))
   \<and> fst (snd (deleteUrl code (db, rc))) = fst (snd (deleteUrl code (db, rc')))
   \<and> (db_faults db = [] \<longrightarrow> status (fst (redirectUrl e now code (db, rc))) \<in> {302, 404, 410})
   \<and> (\<forall>fs. redis_faults rc = True # fs \<longrightarrow>
         redisService_getUrl now code rc = (None, rc\<lparr>redis_faults := fs\<rparr>)
       \<and> redisService_cacheUrl e now code url rc = (False, rc\<lparr>redis_faults := fs\<rparr>)
       \<and> redisService_cacheMetadata e now code meta rc = (False, rc\<lparr>redis_faults := fs\<rparr>)
       \<and> redisService_incrementClicks now code rc = (False, rc\<lparr>redis_faults := fs\<rparr>)
       \<and> redisService_deleteUrl code rc = (False, rc\<lparr>redis_faults := fs\<rparr>))
   \<and> (\<forall>r. db_faults db = [] \<and> truthy (fst (redisService_getUrl now code rc)) = None \<and>
           find_row code db = Some r \<and> \<not> expired now r \<longrightarrow>
         fst (redirectUrl e now code (db, rc)) = Redirect (long_url r))
   \<and> (db_faults db = [] \<and> truthy (fst (redisService_getUrl now code rc)) = None \<and>
           find_row code db = None \<longrightarrow>
         fst (redirectUrl e now code (db, rc)) = Json 404 (Failure ''Short URL not found''))"
proof (intro conjI allI impI)
  show "db_faults db = [] \<Longrightarrow> status (fst (redirectUrl e now code (db, rc))) \<in> {302, 404, 410}"
    by (rule redirectUrl_status)
next
  fix r
  assume "db_faults db = [] \<and> truthy (fst (redisService_getUrl now code rc)) = None \<and>
     find_row code db = Some r \<and> \<not> expired now r"
  then show "fst (redirectUrl e now code (db, rc)) = Redirect (long_url r)"
    by (simp add: redirectUrl_miss)
next
  assume "db_faults db = [] \<and> truthy (fst (redisService_getUrl now code rc)) = None \<and>
     find_row code db = None"
  then show "fst (redirectUrl e now code (db, rc)) = Json 404 (Failure ''Short URL not found'')"
    by (simp add: redirectUrl_miss)
qed (simp_all add: createShortUrl_cache_independent [of e now nanoid req db rc rc']
    deleteUrl_cache_independent [of code db rc rc'] sendCommand_fault
    redisService_getUrl_def redisService_cacheUrl_def redisService_cacheMetadata_def
    redisService_incrementClicks_def redisService_deleteUrl_def)

theorem cache_failures_absorbed_witness:
  "cached_url 50 ''short1'' ex_rc_down = Some ''https://stale.example'' \<and>
   truthy (fst (redisService_getUrl 50 ''short1'' ex_rc_down)) = None \<and>
   find_row ''short1'' ex_db2 = Some ex_row2 \<and> \<not> expired 50 ex_row2 \<and>
   fst (redirectUrl ex_env 50 ''short1'' (ex_db2, ex_rc_down)) = Redirect ''https://x.com'' \<and>
   status (fst (redirectUrl ex_env 50 ''nocode1'' (ex_db2, ex_rc_down))) = 404 \<and>
   status (fst (createShortUrl ex_env 50 ''zzzzzzz'' req_ttl (ex_db2, ex_rc_down))) = 201 \<and>
   status (fst (deleteUrl ''short1'' (ex_db2, ex_rc_down))) = 200"
proof -
  have a: "db_faults ex_db2 = []" by (simp add: ex_db2_def)
  have b: "find_row ''short1'' ex_db2 = Some ex_row2" "find_row ''nocode1'' ex_db2 = None"
    by (simp_all add: find_row_def where_short_code_def first_row_def ex_db2_def ex_row1_def
        ex_row2_def)
  have c: "\<not> expired 50 ex_row2" by (simp add: expired_def ex_row2_def)
  have d: "redis_faults ex_rc_down = True # [True, True, True, True, True, True, True]"
    by (simp add: ex_rc_down_def)
  have s: "cached_url 50 ''short1'' ex_rc_down = Some ''https://stale.example''"
    by (simp add: cached_url_def lookup_def live_def truthy_def ex_rc_down_def)
  have h: "status (fst (createShortUrl ex_env 50 ''zzzzzzz'' req_ttl (ex_db2, ex_rc0))) = 201"
    "status (fst (deleteUrl ''short1'' (ex_db2, ex_rc0))) = 200"
    by (simp_all add: model)
  show ?thesis
    using cache_failures_absorbed [of ex_env 50 "''zzzzzzz''" req_ttl ex_db2 ex_rc_down ex_rc0
        "''short1''" "''u''" "(0, 0, None)"]
      cache_failures_absorbed [of ex_env 50 "''zzzzzzz''" req_ttl ex_db2 ex_rc_down ex_rc0
        "''nocode1''" "''u''" "(0, 0, None)"]
      a b c d s h
    by (simp add: ex_row2_def truthy_def)
qed

section \<open>Create, then Resolve\<close>

lemma timestamp_error_not_unique: "timestamp_error ex \<noteq> Some ''23505''"
  by (simp add: timestamp_error_def split: option.splits)

lemma dbService_createUrl_ok:
  "db_faults db = [] \<Longrightarrow>
   dbService_createUrl now code url ip ex db =
     (case timestamp_error ex of
        Some sqlstate \<Rightarrow> (Inl (PgError sqlstate), db)
      | None \<Rightarrow>
          if 10 < length code \<or> (case ip of None \<Rightarrow> False | Some a \<Rightarrow> 45 < length a)
          then (Inl (PgError ''22001''), db)
          else if where_short_code code db \<noteq> []
          then (Inl (Error ''Short code already exists''),
                db\<lparr>urls_id_seq := urls_id_seq db + 1\<rparr>)
          else (Inr \<lparr>row_id = urls_id_seq db, short_code = code, long_url = url, clicks = 0,
                     created_at = now, expires_at = ex, user_ip = ip\<rparr>,
                db\<lparr>urls_id_seq := urls_id_seq db + 1,
                   urls := urls db @ [\<lparr>row_id = urls_id_seq db, short_code = code,
                                       long_url = url, clicks = 0, created_at = now,
                                       expires_at = ex, user_ip = ip\<rparr>]\<rparr>))"
  using timestamp_error_not_unique [of ex]
  by (cases "timestamp_error ex")
    (simp_all add: dbService_createUrl_def pool_query_ok sql_insert_def Let_def)

lemma createShortUrl_store_created:
  assumes "db_faults db = []"
    and "status (fst (createShortUrl_store e now code url req (db, rc))) = 201"
  shows "where_short_code code db = [] \<and>
         createShortUrl_store e now code url req (db, rc) =
           (Json 201 (Created (UrlJson (urls_id_seq db) code (BASE_URL e @ ''/'' @ code) url 0 now
                                 (requested_expiry now req))),
            (db\<lparr>urls_id_seq := urls_id_seq db + 1,
                urls := urls db @ [new_row now code url req db]\<rparr>,
             snd (redisService_cacheMetadata e now code
                    (urls_id_seq db, now, requested_expiry now req)
                    (snd (redisService_cacheUrl e now code url rc)))))"
  using assms(2)
  by (cases "timestamp_error (requested_expiry now req)")
    (simp_all add: createShortUrl_store_def dbService_createUrl_ok [OF assms(1)] Let_def
      new_row_def split: if_splits)

lemma createShortUrl_generated:
  assumes "truthy (customCode req) = None" and "longUrl req = Some url"
    and "status (fst (createShortUrl e now nanoid req s)) = 201"
  shows "url \<noteq> [] \<and> isURL e url \<and>
         createShortUrl e now nanoid req s = createShortUrl_store e now nanoid url req s"
  using assms by (cases s) (auto simp add: createShortUrl_def truthy_def split: if_splits)

lemma redisService_cacheUrl_kv:
  "kv (snd (redisService_cacheUrl e now code url rc)) = kv rc \<or>
   kv (snd (redisService_cacheUrl e now code url rc)) =
     (kv rc)(''url:'' @ code \<mapsto> (url, Some (now + CACHE_TTL e * 1000)))"
  by (simp add: redisService_cacheUrl_def sendCommand_def SETEX_def take_fault_def
      split: list.splits)

lemma redisService_cacheMetadata_url_key:
  "kv (snd (redisService_cacheMetadata e now code m rc)) (''url:'' @ code') =
     kv rc (''url:'' @ code')"
  by (simp add: redisService_cacheMetadata_def sendCommand_def SETEX_def take_fault_def
      split: list.splits)

lemma find_row_appended:
  "where_short_code code db = [] \<Longrightarrow> short_code row = code \<Longrightarrow>
   find_row code (db\<lparr>urls_id_seq := n, urls := urls db @ [row]\<rparr>) = Some row"
  by (simp add: find_row_def where_short_code_def first_row_def)

text \<open>
  C7. For every valid destination and absent custom code, a successful Create followed by
  a Resolve of the returned code returns exactly the original destination. The
  hypotheses say what "followed by" takes for granted: the database answers, the cache
  held no destination entry for the fresh code before the Create (cache entries are a
  projection of stored mappings), and the Resolve comes no later than the expiry that
  the request itself asked for. The cache may fail on any of its commands. The returned
  code is the generated one.
\<close>

theorem create_then_resolve:
  assumes "truthy (customCode req) = None" and "longUrl req = Some url"
    and "db_faults db = []"
    and "kv rc (''url:'' @ nanoid) = None"
    and "status (fst (createShortUrl e now nanoid req (db, rc))) = 201"
    and "case expiresIn req of None \<Rightarrow> True | Some n \<Rightarrow> n = 0 \<or> now' \<le> now + n * 1000"
  shows "fst (createShortUrl e now nanoid req (db, rc)) =
           Json 201 (Created (UrlJson (urls_id_seq db) nanoid (BASE_URL e @ ''/'' @ nanoid) url 0
                                now (requested_expiry now req)))
       \<and> fst (redirectUrl e now' nanoid (snd (createShortUrl e now nanoid req (db, rc)))) =
           Redirect url"
proof -
  let ?row = "new_row now nanoid url req db"
  let ?db' = "db\<lparr>urls_id_seq := urls_id_seq db + 1, urls := urls db @ [?row]\<rparr>"
  let ?rc1 = "snd (redisService_cacheUrl e now nanoid url rc)"
  let ?rc' = "snd (redisService_cacheMetadata e now nanoid
                     (urls_id_seq db, now, requested_expiry now req) ?rc1)"
  have g: "url \<noteq> []" "isURL e url"
    "createShortUrl e now nanoid req (db, rc) = createShortUrl_store e now nanoid url req (db, rc)"
    using createShortUrl_generated [OF assms(1,2,5)] by auto
  have st: "status (fst (createShortUrl_store e now nanoid url req (db, rc))) = 201"
    using assms(5) g(3) by simp
  have fresh: "where_short_code nanoid db = []"
    and c: "createShortUrl e now nanoid req (db, rc) =
      (Json 201 (Created (UrlJson (urls_id_seq db) nanoid (BASE_URL e @ ''/'' @ nanoid) url 0 now
                            (requested_expiry now req))), (?db', ?rc'))"
    using createShortUrl_store_created [OF assms(3) st] g(3) by auto
  have f': "db_faults ?db' = []" using assms(3) by simp
  have row: "find_row nanoid ?db' = Some ?row"
    using fresh by (intro find_row_appended) (simp_all add: new_row_def)
  have alive: "\<not> expired now' ?row"
    using assms(6)
    by (auto simp: expired_def new_row_def requested_expiry_def split: option.splits)
  have k: "kv ?rc' (''url:'' @ nanoid) = None \<or>
           kv ?rc' (''url:'' @ nanoid) = Some (url, Some (now + CACHE_TTL e * 1000))"
    using redisService_cacheUrl_kv [of e now nanoid url rc] assms(4)
      redisService_cacheMetadata_url_key [of e now nanoid
        "(urls_id_seq db, now, requested_expiry now req)" ?rc1 nanoid]
    by auto
  have "fst (redirectUrl e now' nanoid (?db', ?rc')) = Redirect url"
  proof (cases "truthy (fst (redisService_getUrl now' nanoid ?rc'))")
    case None
    have "fst (redirectUrl e now' nanoid (?db', ?rc')) = Redirect (long_url ?row)"
      unfolding redirectUrl_miss [OF f' None] using row alive by simp
    then show ?thesis by (simp add: new_row_def)
  next
    case (Some cached)
    then have "cached_url now' nanoid ?rc' = Some cached"
      by (rule redisService_getUrl_hit)
    with k have "cached = url"
      by (auto simp: cached_url_def lookup_def truthy_def split: if_splits)
    with Some show ?thesis by (simp add: redirectUrl_hit)
  qed
  then show ?thesis by (simp add: c)
qed

theorem create_then_resolve_witness:
  "status (fst (createShortUrl ex_env 0 ''abc1234'' req_ttl (ex_db0, ex_rc0))) = 201 \<and>
   fst (redirectUrl ex_env 500 ''abc1234''
          (snd (createShortUrl ex_env 0 ''abc1234'' req_ttl (ex_db0, ex_rc0)))) =
     Redirect ''https://example.com/a'' \<and>
   status (fst (createShortUrl ex_env 0 ''abc1234'' req_ttl (ex_db0, ex_rc_down))) = 201 \<and>
   fst (redirectUrl ex_env 500 ''abc1234''
          (snd (createShortUrl ex_env 0 ''abc1234'' req_ttl (ex_db0, ex_rc_down)))) =
     Redirect ''https://example.com/a''"
proof -
  have a: "truthy (customCode req_ttl) = None" "longUrl req_ttl = Some ''https://example.com/a''"
    by (simp_all add: req_ttl_def truthy_def)
  have b: "db_faults ex_db0 = []" by (simp add: ex_db0_def)
  have c: "kv ex_rc0 (''url:'' @ ''abc1234'') = None" "kv ex_rc_down (''url:'' @ ''abc1234'') = None"
    by (simp_all add: ex_rc0_def ex_rc_down_def)
  have d: "status (fst (createShortUrl ex_env 0 ''abc1234'' req_ttl (ex_db0, ex_rc0))) = 201"
    "status (fst (createShortUrl ex_env 0 ''abc1234'' req_ttl (ex_db0, ex_rc_down))) = 201"
    by (simp_all add: model)
  have t: "case expiresIn req_ttl of None \<Rightarrow> True | Some n \<Rightarrow> n = 0 \<or> (500::int) \<le> 0 + n * 1000"
    by (simp add: req_ttl_def)
  show ?thesis
    using create_then_resolve [OF a b c(1) d(1) t] create_then_resolve [OF a b c(2) d(2) t] d
    by simp
qed

section \<open>The click counter\<close>

lemma find_row_lookup_rows: "find_row c db = lookup_rows c (urls db)"
  by (simp add: find_row_def lookup_rows_def where_short_code_def)

lemma lookup_rows_code: "lookup_rows c rows = Some r \<Longrightarrow> short_code r = c"
  by (auto simp: lookup_rows_def first_row_def split: list.splits dest: filter_Cons_head)

lemma lookup_rows_filter:
  "lookup_rows c (filter (\<lambda>r. short_code r \<noteq> code) rows) =
     (if c = code then None else lookup_rows c rows)"
proof (induction rows)
  case Nil
  show ?case by (simp add: lookup_rows_def first_row_def)
next
  case (Cons a rows)
  then show ?case by (auto simp: lookup_rows_def first_row_def)
qed

lemma short_code_bump [simp]: "short_code (bump code r) = short_code r"
  by (simp add: bump_def)

lemma lookup_rows_bump:
  "lookup_rows c (map (bump code) rows) = map_option (bump code) (lookup_rows c rows)"
proof (induction rows)
  case Nil
  show ?case by (simp add: lookup_rows_def first_row_def)
next
  case (Cons a rows)
  then show ?case by (auto simp: lookup_rows_def first_row_def)
qed

lemma lookup_rows_append:
  "lookup_rows c (rows @ [row]) =
     (case lookup_rows c rows of
        Some r \<Rightarrow> Some r
      | None \<Rightarrow> if short_code row = c then Some row else None)"
  by (simp add: lookup_rows_def first_row_def split: list.splits)

lemma pool_query_urls:
  assumes "\<And>d. urls (snd (stmt d)) = f (urls d) \<or> urls (snd (stmt d)) = urls d"
  shows "urls (snd (pool_query stmt db)) = f (urls db) \<or> urls (snd (pool_query stmt db)) = urls db"
proof -
  obtain b fs where t: "take_fault (db_faults db) = (b, fs)"
    by (cases "take_fault (db_faults db)")
  show ?thesis
    using assms [of "db\<lparr>db_faults := fs\<rparr>"] by (cases b) (simp_all add: pool_query_def t)
qed

lemma urls_getUrlbyShortCode [simp]:
  "urls (snd (dbService_getUrlbyShortCode code db)) = urls db"
  using pool_query_urls [of "sql_select code" "\<lambda>x. x" db]
  by (simp add: dbService_getUrlbyShortCode_def sql_select_def split_def split: sum.splits)

lemma urls_getAnalytics [simp]: "urls (snd (dbService_getAnalytics code db)) = urls db"
  using pool_query_urls [of "sql_select code" "\<lambda>x. x" db]
  by (simp add: dbService_getAnalytics_def sql_select_def split_def split: sum.splits)

lemma urls_getAllUrls [simp]: "urls (snd (dbService_getAllUrls lim off db)) = urls db"
  using pool_query_urls [of "sql_select_page lim off" "\<lambda>x. x" db]
  by (simp add: dbService_getAllUrls_def sql_select_page_def)

lemma urls_getTotalUrlCount [simp]: "urls (snd (dbService_getTotalUrlCount db)) = urls db"
  using pool_query_urls [of sql_count "\<lambda>x. x" db]
  by (simp add: dbService_getTotalUrlCount_def sql_count_def)

lemma urls_deleteUrl:
  "urls (snd (dbService_deleteUrl code db)) = filter (\<lambda>r. short_code r \<noteq> code) (urls db) \<or>
   urls (snd (dbService_deleteUrl code db)) = urls db"
  using pool_query_urls [of "sql_delete code" "filter (\<lambda>r. short_code r \<noteq> code)" db]
  by (simp add: dbService_deleteUrl_def sql_delete_def split_def split: sum.splits)

lemma urls_incrementClicks:
  "urls (snd (dbService_incrementClicks code db)) = map (bump code) (urls db) \<or>
   urls (snd (dbService_incrementClicks code db)) = urls db"
proof -
  have "\<And>d. urls (snd (sql_increment code d)) = map (bump code) (urls d) \<or>
             urls (snd (sql_increment code d)) = urls d"
    by (simp add: sql_increment_def bump_def [abs_def])
  from pool_query_urls [of "sql_increment code" "map (bump code)" db, OF this]
  show ?thesis
    by (simp add: dbService_incrementClicks_def split_def split: sum.splits)
qed

lemma urls_createUrl:
  "urls (snd (dbService_createUrl now code url ip ex db)) = urls db \<or>
   (lookup_rows code (urls db) = None \<and>
    (\<exists>row. short_code row = code \<and> clicks row = 0 \<and>
           urls (snd (dbService_createUrl now code url ip ex db)) = urls db @ [row]))"
proof -
  obtain b fs where t: "take_fault (db_faults db) = (b, fs)"
    by (cases "take_fault (db_faults db)")
  show ?thesis
    by (cases b; cases "timestamp_error ex")
      (auto simp add: dbService_createUrl_def pool_query_def t sql_insert_def Let_def
        lookup_rows_def where_short_code_def first_row_def)
qed


lemma createShortUrl_store_db:
  "fst (snd (createShortUrl_store e now code url req (db, rc))) =
     snd (dbService_createUrl now code url (requested_ip req) (requested_expiry now req) db)"
  by (simp add: createShortUrl_store_def Let_def split_def split: sum.splits)

lemma urls_createShortUrl_store:
  "created_step (urls db) (urls (fst (snd (createShortUrl_store e now code url req (db, rc)))))"
  unfolding createShortUrl_store_db created_step_def
  using urls_createUrl by blast

lemma urls_createShortUrl:
  "created_step (urls db) (urls (fst (snd (createShortUrl e now nanoid req (db, rc)))))"
proof -
  have same: "created_step (urls db) (urls db)" by (simp add: created_step_def)
  have store: "\<And>code url d. urls d = urls db \<Longrightarrow>
      created_step (urls db) (urls (fst (snd (createShortUrl_store e now code url req (d, rc)))))"
    using urls_createShortUrl_store by metis
  show ?thesis
    by (auto simp add: createShortUrl_def split_def same store
        split: option.splits sum.splits)
qed

lemma urls_redirectUrl:
  "case fst (redirectUrl e now code (db, rc)) of
     Redirect url \<Rightarrow>
       urls (fst (snd (redirectUrl e now code (db, rc)))) = urls db \<or>
       urls (fst (snd (redirectUrl e now code (db, rc)))) = map (bump code) (urls db)
   | Json n b \<Rightarrow>
       urls (fst (snd (redirectUrl e now code (db, rc)))) = urls db \<or>
       urls (fst (snd (redirectUrl e now code (db, rc)))) =
         filter (\<lambda>r. short_code r \<noteq> code) (urls db)"
  using urls_deleteUrl [of code "snd (dbService_getUrlbyShortCode code db)"]
    urls_incrementClicks [of code db]
    urls_incrementClicks [of code "snd (dbService_getUrlbyShortCode code db)"]
  by (auto simp add: redirectUrl_def split_def recordClicks_def split: option.splits sum.splits)

lemma urls_deleteUrl_handler:
  "urls (fst (snd (deleteUrl code (db, rc)))) = urls db \<or>
   urls (fst (snd (deleteUrl code (db, rc)))) = filter (\<lambda>r. short_code r \<noteq> code) (urls db)"
  using urls_deleteUrl [of code db]
  by (auto simp add: deleteUrl_def split_def split: option.splits sum.splits)

lemma urls_getAllUrls_handler [simp]:
  "urls (fst (snd (getAllUrls e l off (db, rc)))) = urls db"
  by (simp add: getAllUrls_def Let_def split_def split: option.splits sum.splits)

lemma urls_getAnalytics_handler [simp]:
  "urls (fst (snd (getAnalytics code (db, rc)))) = urls db"
  by (simp add: getAnalytics_def split_def split: option.splits sum.splits)

text \<open>
  C8. Take any of the five operations, on any state and with any failures, and any
  mapping that is stored under a code after it. If a mapping was stored under that code
  before, its \<^verbatim>\<open>clicks\<close> has not decreased and, if it was non-negative, still is; the row
  is unchanged, except that a Resolve of that very code may have added exactly one to
  \<^verbatim>\<open>clicks\<close> (the click recording, which runs only when the Resolve redirects) and
  changed nothing else. If no mapping was stored under the code before, the operation
  is a Create and the new mapping has \<^verbatim>\<open>clicks = 0\<close>. So no Create, Delete, ListAll or
  GetAnalytics changes the counter of a mapping, and the counter only grows.
\<close>

theorem clicks_only_grow:
  assumes "find_row c (fst (snd (perform op (db, rc)))) = Some r'"
  shows "case find_row c db of
           None \<Rightarrow> clicks r' = 0 \<and> (\<exists>e now nanoid req. op = Create e now nanoid req)
         | Some r \<Rightarrow>
             clicks r \<le> clicks r' \<and> (0 \<le> clicks r \<longrightarrow> 0 \<le> clicks r') \<and>
             (r' = r \<or>
              (r' = r\<lparr>clicks := clicks r + 1\<rparr> \<and> (\<exists>e now. op = Resolve e now c) \<and>
               (\<exists>url. fst (perform op (db, rc)) = Redirect url)))"
proof (cases op)
  case (Create e now nanoid req)
  have "created_step (urls db) (urls (fst (snd (perform op (db, rc)))))"
    using urls_createShortUrl [of db e now nanoid req rc] Create by simp
  then show ?thesis
    using assms Create
    by (auto simp: created_step_def find_row_lookup_rows lookup_rows_append
        split: option.splits if_splits)
next
  case (Resolve e now code)
  show ?thesis
  proof (cases "fst (redirectUrl e now code (db, rc))")
    case (Json n b)
    then show ?thesis
      using urls_redirectUrl [of e now code db rc] assms Resolve
      by (auto simp: find_row_lookup_rows lookup_rows_filter split: option.splits if_splits)
  next
    case (Redirect url)
    then show ?thesis
      using urls_redirectUrl [of e now code db rc] assms Resolve
      by (auto simp: find_row_lookup_rows lookup_rows_bump bump_def
          split: option.splits if_splits dest: lookup_rows_code)
  qed
next
  case (Delete code)
  show ?thesis
    using urls_deleteUrl_handler [of code db rc] assms Delete
    by (auto simp: find_row_lookup_rows lookup_rows_filter split: option.splits if_splits)
next
  case (ListAll e l off)
  with assms show ?thesis by (simp add: find_row_lookup_rows)
next
  case (GetAnalytics code)
  with assms show ?thesis by (simp add: find_row_lookup_rows)
qed

theorem clicks_only_grow_witness:
  "find_row ''abc1234'' (fst (snd (perform (Resolve ex_env 500 ''abc1234'') (ex_db2, ex_rc1)))) =
     Some (ex_row1\<lparr>clicks := 4\<rparr>) \<and>
   find_row ''abc1234'' ex_db2 = Some ex_row1 \<and>
   clicks ex_row1 \<le> clicks (ex_row1\<lparr>clicks := 4\<rparr>) \<and>
   find_row ''short1'' (fst (snd (perform (Delete ''abc1234'') (ex_db2, ex_rc1)))) = Some ex_row2 \<and>
   find_row ''short1'' ex_db2 = Some ex_row2"
proof -
  have a: "find_row ''abc1234'' (fst (snd (perform (Resolve ex_env 500 ''abc1234'') (ex_db2, ex_rc1)))) =
     Some (ex_row1\<lparr>clicks := 4\<rparr>)"
    by (simp add: model)
  have b: "find_row ''short1'' (fst (snd (perform (Delete ''abc1234'') (ex_db2, ex_rc1)))) = Some ex_row2"
    by (simp add: model)
  have c: "find_row ''abc1234'' ex_db2 = Some ex_row1" "find_row ''short1'' ex_db2 = Some ex_row2"
    by (simp_all add: model)
  show ?thesis
    using clicks_only_grow [OF a] clicks_only_grow [OF b] a b c by simp
qed

section \<open>A failing cache, and a cache out of reach\<close>

lemma find_row_None: "find_row code db = None \<Longrightarrow> where_short_code code db = []"
  by (simp add: find_row_def first_row_def split: list.splits)

lemma createShortUrl_store_succeeds:
  assumes "db_faults db = []" and "timestamp_error (requested_expiry now req) = None"
    and "length code \<le> 10"
    and "case requested_ip req of None \<Rightarrow> True | Some a \<Rightarrow> length a \<le> 45"
    and "find_row code db = None"
  shows "createShortUrl_store e now code url req (db, rc) =
           (Json 201 (Created (UrlJson (urls_id_seq db) code (BASE_URL e @ ''/'' @ code) url 0 now
                                 (requested_expiry now req))),
            (db\<lparr>urls_id_seq := urls_id_seq db + 1,
                urls := urls db @ [new_row now code url req db]\<rparr>,
             snd (redisService_cacheMetadata e now code
                    (urls_id_seq db, now, requested_expiry now req)
                    (snd (redisService_cacheUrl e now code url rc)))))"
proof -
  have ip: "\<not> (case requested_ip req of None \<Rightarrow> False | Some a \<Rightarrow> 45 < length a)"
    using assms(4) by (cases "requested_ip req") auto
  have len: "\<not> 10 < length code" using assms(3) by simp
  show ?thesis
    using ip len
    by (simp add: createShortUrl_store_def dbService_createUrl_ok [OF assms(1)] assms(2)
        find_row_None [OF assms(5)] Let_def new_row_def)
qed

text \<open>
  While the database answers, Create and Delete succeed whatever the cache holds and
  whichever of its commands are rejected: a Create of a valid request whose code is not
  stored answers 201 and the new mapping is in the table (for a generated code and for a
  custom code), and a Delete of a stored code answers 200 and the mapping is gone.
\<close>

theorem create_and_delete_succeed_whatever_the_cache:
  assumes "db_faults db = []"
  shows "(\<forall>url. longUrl req = Some url \<and> url \<noteq> [] \<and> isURL e url \<and>
            truthy (customCode req) = None \<and> length nanoid \<le> 10 \<and>
            (case requested_ip req of None \<Rightarrow> True | Some a \<Rightarrow> length a \<le> 45) \<and>
            timestamp_error (requested_expiry now req) = None \<and> find_row nanoid db = None \<longrightarrow>
          fst (createShortUrl e now nanoid req (db, rc)) =
            Json 201 (Created (UrlJson (urls_id_seq db) nanoid (BASE_URL e @ ''/'' @ nanoid) url 0
                                 now (requested_expiry now req))) \<and>
          find_row nanoid (fst (snd (createShortUrl e now nanoid req (db, rc)))) =
            Some (new_row now nanoid url req db))
       \<and> (\<forall>url custom. longUrl req = Some url \<and> url \<noteq> [] \<and> isURL e url \<and>
            customCode req = Some custom \<and> 4 \<le> length custom \<and> length custom \<le> 10 \<and>
            (case requested_ip req of None \<Rightarrow> True | Some a \<Rightarrow> length a \<le> 45) \<and>
            timestamp_error (requested_expiry now req) = None \<and> find_row custom db = None \<longrightarrow>
          fst (createShortUrl e now nanoid req (db, rc)) =
            Json 201 (Created (UrlJson (urls_id_seq db) custom (BASE_URL e @ ''/'' @ custom) url 0
                                 now (requested_expiry now req))) \<and>
          find_row custom (fst (snd (createShortUrl e now nanoid req (db, rc)))) =
            Some (new_row now custom url req db))
       \<and> (\<forall>r. find_row code db = Some r \<longrightarrow>
            fst (deleteUrl code (db, rc)) = Json 200 (Message ''Short URL deleted successfully'') \<and>
            find_row code (fst (snd (deleteUrl code (db, rc)))) = None)"
proof (intro conjI allI impI)
  fix url
  assume h: "longUrl req = Some url \<and> url \<noteq> [] \<and> isURL e url \<and>
            truthy (customCode req) = None \<and> length nanoid \<le> 10 \<and>
            (case requested_ip req of None \<Rightarrow> True | Some a \<Rightarrow> length a \<le> 45) \<and>
            timestamp_error (requested_expiry now req) = None \<and> find_row nanoid db = None"
  then have c: "createShortUrl e now nanoid req (db, rc) =
      createShortUrl_store e now nanoid url req (db, rc)"
    by (simp add: createShortUrl_def truthy_def)
  have s: "createShortUrl_store e now nanoid url req (db, rc) =
           (Json 201 (Created (UrlJson (urls_id_seq db) nanoid (BASE_URL e @ ''/'' @ nanoid) url 0
                                 now (requested_expiry now req))),
            (db\<lparr>urls_id_seq := urls_id_seq db + 1,
                urls := urls db @ [new_row now nanoid url req db]\<rparr>,
             snd (redisService_cacheMetadata e now nanoid
                    (urls_id_seq db, now, requested_expiry now req)
                    (snd (redisService_cacheUrl e now nanoid url rc)))))"
    using h by (intro createShortUrl_store_succeeds [OF assms]) simp_all
  show "fst (createShortUrl e now nanoid req (db, rc)) =
            Json 201 (Created (UrlJson (urls_id_seq db) nanoid (BASE_URL e @ ''/'' @ nanoid) url 0
                                 now (requested_expiry now req)))"
    by (simp add: c s)
  have "find_row nanoid (db\<lparr>urls_id_seq := urls_id_seq db + 1,
                urls := urls db @ [new_row now nanoid url req db]\<rparr>) =
      Some (new_row now nanoid url req db)"
    using h by (intro find_row_appended find_row_None) (simp_all add: new_row_def)
  then show "find_row nanoid (fst (snd (createShortUrl e now nanoid req (db, rc)))) =
            Some (new_row now nanoid url req db)"
    unfolding c s by simp
next
  fix url custom
  assume h: "longUrl req = Some url \<and> url \<noteq> [] \<and> isURL e url \<and>
            customCode req = Some custom \<and> 4 \<le> length custom \<and> length custom \<le> 10 \<and>
            (case requested_ip req of None \<Rightarrow> True | Some a \<Rightarrow> length a \<le> 45) \<and>
            timestamp_error (requested_expiry now req) = None \<and> find_row custom db = None"
  then have c: "createShortUrl e now nanoid req (db, rc) =
      createShortUrl_store e now custom url req (db, rc)"
    using assms
    by (simp add: createShortUrl_custom_in_window [of req url e custom now nanoid db rc]
        getUrlbyShortCode_ok)
  have s: "createShortUrl_store e now custom url req (db, rc) =
           (Json 201 (Created (UrlJson (urls_id_seq db) custom (BASE_URL e @ ''/'' @ custom) url 0
                                 now (requested_expiry now req))),
            (db\<lparr>urls_id_seq := urls_id_seq db + 1,
                urls := urls db @ [new_row now custom url req db]\<rparr>,
             snd (redisService_cacheMetadata e now custom
                    (urls_id_seq db, now, requested_expiry now req)
                    (snd (redisService_cacheUrl e now custom url rc)))))"
    using h by (intro createShortUrl_store_succeeds [OF assms]) simp_all
  show "fst (createShortUrl e now nanoid req (db, rc)) =
            Json 201 (Created (UrlJson (urls_id_seq db) custom (BASE_URL e @ ''/'' @ custom) url 0
                                 now (requested_expiry now req)))"
    by (simp add: c s)
  have "find_row custom (db\<lparr>urls_id_seq := urls_id_seq db + 1,
                urls := urls db @ [new_row now custom url req db]\<rparr>) =
      Some (new_row now custom url req db)"
    using h by (intro find_row_appended find_row_None) (simp_all add: new_row_def)
  then show "find_row custom (fst (snd (createShortUrl e now nanoid req (db, rc)))) =
            Some (new_row now custom url req db)"
    unfolding c s by simp
next
  fix r assume r: "find_row code db = Some r"
  show "fst (deleteUrl code (db, rc)) = Json 200 (Message ''Short URL deleted successfully'')"
    by (simp add: deleteUrl_found [OF assms r])
  show "find_row code (fst (snd (deleteUrl code (db, rc)))) = None"
    by (simp add: deleteUrl_found [OF assms r] find_row_deleted)
qed

theorem create_and_delete_succeed_whatever_the_cache_witness:
  "fst (createShortUrl ex_env 50 ''zzzzzzz'' req_ttl (ex_db2, ex_rc_down)) =
     Json 201 (Created (UrlJson 3 ''zzzzzzz'' ''http://sho.rt/zzzzzzz''
                          ''https://example.com/a'' 0 50 (Some 1050))) \<and>
   fst (createShortUrl ex_env 50 ''zzzzzzz'' (req_custom ''mine'') (ex_db2, ex_rc_down)) =
     Json 201 (Created (UrlJson 3 ''mine'' ''http://sho.rt/mine''
                          ''https://example.com/b'' 0 50 None)) \<and>
   fst (deleteUrl ''short1'' (ex_db2, ex_rc_down)) =
     Json 200 (Message ''Short URL deleted successfully'') \<and>
   find_row ''short1'' (fst (snd (deleteUrl ''short1'' (ex_db2, ex_rc_down)))) = None"
proof -
  have a: "db_faults ex_db2 = []" by (simp add: ex_db2_def)
  have b: "find_row ''short1'' ex_db2 = Some ex_row2" "find_row ''zzzzzzz'' ex_db2 = None"
    "find_row ''mine'' ex_db2 = None"
    by (simp_all add: find_row_def where_short_code_def first_row_def ex_db2_def ex_row1_def
        ex_row2_def)
  have c: "urls_id_seq ex_db2 = 3" by (simp add: ex_db2_def)
  show ?thesis
    using create_and_delete_succeed_whatever_the_cache [OF a, of req_ttl ex_env "''zzzzzzz''" 50
        ex_rc_down "''short1''"]
      create_and_delete_succeed_whatever_the_cache [OF a, of "req_custom ''mine''" ex_env
        "''zzzzzzz''" 50 ex_rc_down "''short1''"] b c
    by (simp add: req_ttl_def req_custom_def ex_env_def truthy_def requested_expiry_def
        requested_ip_def timestamp_error_def)
qed

lemma createShortUrl_store_client_ready:
  "createShortUrl_store_client True e now code url req s =
     answered (createShortUrl_store e now code url req s)"
  by (cases s)
    (simp add: createShortUrl_store_client_def createShortUrl_store_def answered_def Let_def
      split: prod.splits sum.splits)

lemma createShortUrl_client_ready:
  "createShortUrl_client True e now nanoid req s = answered (createShortUrl e now nanoid req s)"
  by (cases s)
    (simp add: createShortUrl_client_def createShortUrl_def createShortUrl_store_client_ready
      answered_def split: prod.splits sum.splits option.splits)

lemma deleteUrl_client_ready:
  "deleteUrl_client True code s = answered (deleteUrl code s)"
  by (cases s)
    (simp add: deleteUrl_client_def deleteUrl_def answered_def
      split: prod.splits sum.splits option.splits)

lemma redirectUrl_client_unreachable:
  "redirectUrl_client False e now code s = (None, s)"
  by (simp add: redirectUrl_client_def)

lemma deleteUrl_client_unreachable:
  "db_faults db = [] \<Longrightarrow> find_row code db = Some r \<Longrightarrow>
   deleteUrl_client False code (db, rc) =
     (None, (db\<lparr>urls := filter (\<lambda>r. short_code r \<noteq> code) (urls db)\<rparr>, rc))"
  by (simp add: deleteUrl_client_def dbService_deleteUrl_ok)

text \<open>
  C6. The handlers absorb the failures of the cache that its client reports, as the
  theorem above and \<open>cache_failures_absorbed\<close> say. They do not absorb a cache that is
  down: no method of the Redis service returns while the server cannot be reached, since
  the client set up in config/redis.js neither rejects nor times out the command. With
  the server in reach the three handlers answer. With the server out of reach, on the
  same state and the same requests, none of them answers: Resolve does not fall
  through to the table, where the unexpired mapping of \<^verbatim>\<open>short1\<close> is stored, and Create
  and Delete stay without response after they have changed the table.
\<close>

theorem cache_unreachable_never_answers:
  "find_row ''short1'' ex_db2 = Some ex_row2 \<and> \<not> expired 50 ex_row2 \<and>
   fst (redirectUrl_client True ex_env 50 ''short1'' (ex_db2, ex_rc0)) =
     Some (Redirect ''https://x.com'') \<and>
   fst (redirectUrl_client False ex_env 50 ''short1'' (ex_db2, ex_rc0)) = None \<and>
   fst (createShortUrl_client True ex_env 50 ''zzzzzzz'' req_ttl (ex_db2, ex_rc0)) =
     Some (Json 201 (Created (UrlJson 3 ''zzzzzzz'' ''http://sho.rt/zzzzzzz''
                                ''https://example.com/a'' 0 50 (Some 1050)))) \<and>
   fst (createShortUrl_client False ex_env 50 ''zzzzzzz'' req_ttl (ex_db2, ex_rc0)) = None \<and>
   find_row ''zzzzzzz''
     (fst (snd (createShortUrl_client False ex_env 50 ''zzzzzzz'' req_ttl (ex_db2, ex_rc0)))) =
     Some \<lparr>row_id = 3, short_code = ''zzzzzzz'', long_url = ''https://example.com/a'',
           clicks = 0, created_at = 50, expires_at = Some 1050, user_ip = Some ''10.0.0.1''\<rparr> \<and>
   fst (deleteUrl_client True ''short1'' (ex_db2, ex_rc0)) =
     Some (Json 200 (Message ''Short URL deleted successfully'')) \<and>
   fst (deleteUrl_client False ''short1'' (ex_db2, ex_rc0)) = None \<and>
   find_row ''short1'' (fst (snd (deleteUrl_client False ''short1'' (ex_db2, ex_rc0)))) = None"
  by (simp add: model createShortUrl_client_def createShortUrl_store_client_def
      redirectUrl_client_def deleteUrl_client_def answered_def)

end
